theory Spec2Isabelle
  imports Complex_Main
begin

section \<open>JavaScript values\<close>

text \<open>
  The explorer page receives its dictionary rows as \<open>any\<close>: whatever \<open>res.json()\<close>
  parsed. A parsed JSON value is \<open>null\<close>, a boolean, a finite number, a string, an array
  or an object; \<open>undefined\<close> is what reading a missing property gives. Numbers of a
  JSON payload are finite doubles, and every finite double is a rational, so a number is
  a \<open>rat\<close>. A string is the list of its code units. An object is the association list
  of its own properties (\<open>map_of\<close> reads it, so the first pair of a key is the one that
  counts).
\<close>

datatype jsval =
    JUndefined
  | JNull
  | JBool bool
  | JNum rat
  | JStr string
  | JArr "jsval list"
  | JObj "(string \<times> jsval) list"

datatype js_error = TypeError | SyntaxError | NetworkError | HttpError string | ReactError

text \<open>ToBoolean: what \<open>||\<close>, \<open>&&\<close> and \<open>? :\<close> test.\<close>

fun truthy :: "jsval \<Rightarrow> bool" where
  "truthy JUndefined = False"
| "truthy JNull = False"
| "truthy (JBool b) = b"
| "truthy (JNum x) = (x \<noteq> 0)"
| "truthy (JStr s) = (s \<noteq> [])"
| "truthy (JArr xs) = True"
| "truthy (JObj ps) = True"

text \<open>
  A canonical array index is a decimal numeral without a leading zero; \<open>index_key\<close>
  reads one.
\<close>

definition is_digit :: "char \<Rightarrow> bool" where
  "is_digit c = (c \<in> set ''0123456789'')"

definition digit_val :: "char \<Rightarrow> nat" where
  "digit_val c = of_char c - 48"

definition index_key :: "string \<Rightarrow> nat option" where
  "index_key k =
     (if k \<noteq> [] \<and> list_all is_digit k \<and> (k = ''0'' \<or> hd k \<noteq> CHR ''0'')
      then Some (foldl (\<lambda>a c. 10 * a + digit_val c) 0 k)
      else None)"

text \<open>
  \<open>item[key]\<close>. Reading a property of \<open>null\<close> or \<open>undefined\<close> throws a TypeError. An
  object answers with its own property or \<open>undefined\<close>; an array and a string own their
  indices and \<open>length\<close>; a number and a boolean own nothing. Properties inherited from
  the prototypes (\<open>toString\<close>, \<open>constructor\<close>, ...) are functions, which a JSON value
  cannot hold: they are outside this model, and none of the keys read below is one.
\<close>

fun getp :: "jsval \<Rightarrow> string \<Rightarrow> js_error + jsval" where
  "getp JUndefined k = Inl TypeError"
| "getp JNull k = Inl TypeError"
| "getp (JBool b) k = Inr JUndefined"
| "getp (JNum x) k = Inr JUndefined"
| "getp (JStr s) k =
     (if k = ''length'' then Inr (JNum (of_nat (length s)))
      else case index_key k of
             None \<Rightarrow> Inr JUndefined
           | Some i \<Rightarrow> Inr (if i < length s then JStr [s ! i] else JUndefined))"
| "getp (JArr xs) k =
     (if k = ''length'' then Inr (JNum (of_nat (length xs)))
      else case index_key k of
             None \<Rightarrow> Inr JUndefined
           | Some i \<Rightarrow> Inr (if i < length xs then xs ! i else JUndefined))"
| "getp (JObj ps) k = Inr (case map_of ps k of None \<Rightarrow> JUndefined | Some v \<Rightarrow> v)"

text \<open>
  \<open>a || b\<close>: \<open>b\<close> is evaluated only when \<open>a\<close> is falsy, and an exception thrown by
  \<open>a\<close> ends the whole expression.
\<close>

fun or_else :: "js_error + jsval \<Rightarrow> js_error + jsval \<Rightarrow> js_error + jsval" where
  "or_else (Inl e) b = Inl e"
| "or_else (Inr v) b = (if truthy v then Inr v else b)"

text \<open>Sequencing of steps that may throw: the first exception is the result.\<close>

fun bind_e :: "'x + 'a \<Rightarrow> ('a \<Rightarrow> 'x + 'b) \<Rightarrow> 'x + 'b" where
  "bind_e (Inl e) f = Inl e"
| "bind_e (Inr a) f = f a"

text \<open>\<open>xs.map(f)\<close> where \<open>f\<close> may throw: the first exception ends the loop.\<close>

fun map_e :: "('r \<Rightarrow> 'x + 'i) \<Rightarrow> 'r list \<Rightarrow> 'x + 'i list" where
  "map_e f [] = Inr []"
| "map_e f (x # xs) = bind_e (f x) (\<lambda>y. bind_e (map_e f xs) (\<lambda>ys. Inr (y # ys)))"

text \<open>
  \<open>v.map(f)\<close> where \<open>v\<close> is any value: only an array has a \<open>map\<close> to call. On \<open>null\<close> and
  \<open>undefined\<close> reading \<open>map\<close> throws, and on every other value \<open>map\<close> is not a function:
  a TypeError both times.
\<close>

definition array_map_e :: "(jsval \<Rightarrow> js_error + 'i) \<Rightarrow> jsval \<Rightarrow> js_error + 'i list" where
  "array_map_e f v = (case v of JArr xs \<Rightarrow> map_e f xs | _ \<Rightarrow> Inl TypeError)"

section \<open>The dictionary resolver (explorer page)\<close>

text \<open>
  \<^verbatim>\<open>
  const normalizedDict = dictData.map((item: any) => ({
      fieldName: item['Field Name'] || item['Element Name'] || item['Name'] || 'Unknown',
      description: item['Description'] || item['Definition'] || '',
      dnbCode: item['D&B Code'] || item['Dnb Code'] || '',
      type: item['Data Type'] || item['Type'] || '',
      length: item['Length'] || ''
  }));
  \<close>
  The fields of the result hold whatever value the chain selected, so they are
  \<open>jsval\<close>s. \<open>type\<close> and \<open>length\<close> are primed: HOL has constants of these names.
\<close>

record DictionaryItem =
  fieldName :: jsval
  description :: jsval
  dnbCode :: jsval
  type' :: jsval
  length' :: jsval

definition normalizeItem :: "jsval \<Rightarrow> js_error + DictionaryItem" where
  "normalizeItem item =
     bind_e (or_else (getp item ''Field Name'')
              (or_else (getp item ''Element Name'')
                (or_else (getp item ''Name'') (Inr (JStr ''Unknown''))))) (\<lambda>f.
     bind_e (or_else (getp item ''Description'')
              (or_else (getp item ''Definition'') (Inr (JStr '''')))) (\<lambda>d.
     bind_e (or_else (getp item ''D&B Code'')
              (or_else (getp item ''Dnb Code'') (Inr (JStr '''')))) (\<lambda>c.
     bind_e (or_else (getp item ''Data Type'')
              (or_else (getp item ''Type'') (Inr (JStr '''')))) (\<lambda>t.
     bind_e (or_else (getp item ''Length'') (Inr (JStr ''''))) (\<lambda>l.
     Inr \<lparr>fieldName = f, description = d, dnbCode = c, type' = t, length' = l\<rparr>)))))"

definition normalizedDict :: "jsval \<Rightarrow> js_error + DictionaryItem list" where
  "normalizedDict dictData = array_map_e normalizeItem dictData"

text \<open>
  The spec describes the resolver over an alias table: ``scan its alias sequence in
  declared priority order and take the value of the first alias key present (key
  presence, not truthiness) in the raw record; absent-for-all-aliases yields the field's
  default''. \<open>first_present\<close> is that sentence; \<open>first_truthy\<close> is the same scan with the
  test the \<open>||\<close> chain makes.
\<close>

fun first_present :: "(string \<times> jsval) list \<Rightarrow> string list \<Rightarrow> jsval \<Rightarrow> jsval" where
  "first_present ps [] d = d"
| "first_present ps (a # as) d =
     (case map_of ps a of Some v \<Rightarrow> v | None \<Rightarrow> first_present ps as d)"

fun first_truthy :: "(string \<times> jsval) list \<Rightarrow> string list \<Rightarrow> jsval \<Rightarrow> jsval" where
  "first_truthy ps [] d = d"
| "first_truthy ps (a # as) d =
     (case map_of ps a of
        Some v \<Rightarrow> if truthy v then v else first_truthy ps as d
      | None \<Rightarrow> first_truthy ps as d)"

text \<open>The record the resolver gives when no alias contributes a value.\<close>

definition default_item :: DictionaryItem where
  "default_item =
     \<lparr>fieldName = JStr ''Unknown'', description = JStr '''', dnbCode = JStr '''',
      type' = JStr '''', length' = JStr ''''\<rparr>"

section \<open>Numbers as text\<close>

text \<open>
  Number::toString prints an integer of magnitude at most \<open>2^53\<close> as its decimal digits.
  Every other number (a fraction, a larger magnitude) is printed by the engine's
  shortest-round-trip algorithm, which is not part of this repository: it is the
  parameter \<open>tostr\<close> of the functions below.
\<close>

definition digit_char :: "nat \<Rightarrow> char" where
  "digit_char d = ''0123456789'' ! d"

fun decimal :: "nat \<Rightarrow> string" where
  "decimal n = (if n < 10 then [digit_char n] else decimal (n div 10) @ [digit_char (n mod 10)])"

definition numberToString :: "(rat \<Rightarrow> string) \<Rightarrow> rat \<Rightarrow> string" where
  "numberToString tostr x =
     (if of_int \<lfloor>x\<rfloor> = x \<and> \<bar>x\<bar> \<le> 2 ^ 53
      then (if x < 0 then ''-'' else '''') @ decimal (nat \<bar>\<lfloor>x\<rfloor>\<bar>)
      else tostr x)"

text \<open>
  \<open>a * b\<close> on doubles: the exact product rounded to the nearest double, ties to the even
  mantissa (IEEE 754 binary64: 53 bits of mantissa, exponents from \<open>-1022\<close>, subnormals
  below, infinity from \<open>2^1024\<close>).
\<close>

datatype fpnum = Fin rat | PosInf | NegInf

fun log2floor :: "nat \<Rightarrow> nat" where
  "log2floor n = (if n < 2 then 0 else Suc (log2floor (n div 2)))"

definition bit_length :: "nat \<Rightarrow> nat" where
  "bit_length n = (if n = 0 then 0 else Suc (log2floor n))"

text \<open>The \<open>e\<close> with \<open>2^e \<le> |x| < 2^(e+1)\<close>, for \<open>x \<noteq> 0\<close>.\<close>

definition binary_exponent :: "rat \<Rightarrow> int" where
  "binary_exponent x =
     (if 1 \<le> \<bar>x\<bar> then int (log2floor (nat \<lfloor>\<bar>x\<bar>\<rfloor>))
      else - int (bit_length (nat (\<lceil>1 / \<bar>x\<bar>\<rceil> - 1))))"

definition round_ties_even :: "rat \<Rightarrow> int" where
  "round_ties_even q =
     (let f = \<lfloor>q\<rfloor>; d = q - of_int f
      in if d < 1 / 2 then f else if 1 / 2 < d then f + 1 else if even f then f else f + 1)"

definition to_double :: "rat \<Rightarrow> fpnum" where
  "to_double x =
     (if x = 0 then Fin 0
      else let e = max (binary_exponent x) (- 1022);
               u = 2 powi (e - 52);
               r = of_int (round_ties_even (x / u)) * u
           in if 2 powi 1024 \<le> \<bar>r\<bar> then (if 0 < x then PosInf else NegInf) else Fin r)"

definition double_mul :: "rat \<Rightarrow> rat \<Rightarrow> fpnum" where
  "double_mul a b = to_double (a * b)"

text \<open>
  \<open>x.toFixed(0)\<close>: the sign, then the integer nearest to \<open>|x|\<close>, the larger one of two
  equally near; from \<open>10^21\<close> on, and for the infinities, what Number::toString prints.
\<close>

definition toFixed0 :: "(rat \<Rightarrow> string) \<Rightarrow> fpnum \<Rightarrow> string" where
  "toFixed0 tostr v =
     (case v of
        PosInf \<Rightarrow> ''Infinity''
      | NegInf \<Rightarrow> ''-Infinity''
      | Fin x \<Rightarrow>
          (if x < 0 then ''-'' else '''') @
          (if 10 ^ 21 \<le> \<bar>x\<bar> then numberToString tostr \<bar>x\<bar>
           else decimal (nat \<lfloor>\<bar>x\<bar> + 1 / 2\<rfloor>)))"

section \<open>The graph model (GraphViz component)\<close>

text \<open>
  Nodes and edges are the \<open>Node\<close> and \<open>Edge\<close> of the graph library, with the fields this
  repository reads or writes. \<open>data\<close> is a \<open>Record<string, unknown>\<close>; the component reads
  \<open>name\<close> and \<open>risk_score\<close> (cast \<open>as number\<close>) of a node's and \<open>ownership_percentage\<close> of
  an edge's, and they are typed as the payload gives them: an optional string and
  optional numbers. An absent optional field (\<open>undefined\<close>) is \<open>None\<close>. A field name
  that nodes and edges share, or that HOL already uses (\<open>id\<close>, \<open>data\<close>, \<open>label\<close>, \<open>style\<close>,
  \<open>type\<close>), carries the letter of its record: \<open>nid\<close>, \<open>ndata\<close>, \<open>eid\<close>, \<open>edata\<close>, ...
\<close>

record position =
  pos_x :: rat
  pos_y :: rat

record node_style =
  background :: string
  border :: string
  width :: nat
  padding :: nat
  borderRadius :: nat

text \<open>
  A node's label is the text of the payload, or the element \<open>processNodes\<close> builds: a
  bold line with the display name and, in risk mode, a second line.
\<close>

datatype node_label = TextLabel string | NameLabel string "string option"

record node_data =
  name :: "string option"
  risk_score :: "rat option"
  label :: "node_label option"

record node =
  nid :: string
  position :: position
  ndata :: node_data
  ntype :: "string option"
  nstyle :: "node_style option"

record edge_data =
  ownership_percentage :: "rat option"

record edge_style =
  stroke :: string

record label_style =
  fill :: string
  fontWeight :: nat

record edge =
  eid :: string
  source :: string
  target :: string
  elabel :: "string option"
  edata :: "edge_data option"
  estyle :: "edge_style option"
  labelStyle :: "label_style option"

text \<open>Truthiness of an optional number and of an optional string.\<close>

definition truthy_num :: "rat option \<Rightarrow> bool" where
  "truthy_num v = (case v of None \<Rightarrow> False | Some x \<Rightarrow> x \<noteq> 0)"

definition truthy_str :: "string option \<Rightarrow> bool" where
  "truthy_str v = (case v of None \<Rightarrow> False | Some s \<Rightarrow> s \<noteq> [])"

text \<open>
  \<^verbatim>\<open>
  label: edge.data && edge.data.ownership_percentage
      ? `${edge.data.ownership_percentage}%`
      : edge.label || '',
  style: { stroke: '#555' },
  labelStyle: { fill: '#333', fontWeight: 700 },
  \<close>
  The two versions of the component in the repository have the same \<open>processEdges\<close>.
\<close>

definition edge_label :: "(rat \<Rightarrow> string) \<Rightarrow> edge \<Rightarrow> string" where
  "edge_label tostr e =
     (case edata e of
        None \<Rightarrow> (if truthy_str (elabel e) then the (elabel e) else '''')
      | Some d \<Rightarrow>
          if truthy_num (ownership_percentage d)
          then numberToString tostr (the (ownership_percentage d)) @ ''%''
          else if truthy_str (elabel e) then the (elabel e) else '''')"

definition processEdge :: "(rat \<Rightarrow> string) \<Rightarrow> edge \<Rightarrow> edge" where
  "processEdge tostr e =
     e\<lparr>elabel := Some (edge_label tostr e),
       estyle := Some \<lparr>stroke = ''#555''\<rparr>,
       labelStyle := Some \<lparr>fill = ''#333'', fontWeight = 700\<rparr>\<rparr>"

definition processEdges :: "(rat \<Rightarrow> string) \<Rightarrow> edge list \<Rightarrow> edge list" where
  "processEdges tostr es = map (processEdge tostr) es"

text \<open>
  \<^verbatim>\<open>
  let style = { background: '#fff', border: '1px solid #777', width: 180, padding: 10, borderRadius: 5 };
  if (isRiskMode) {
      const score = (node.data?.risk_score as number) || 0;
      if (score > 75) style = { ...style, background: '#fee2e2', border: '2px solid #ef4444' };
      else if (score > 50) style = { ...style, background: '#fef3c7', border: '2px solid #f59e0b' };
      else style = { ...style, background: '#dcfce7', border: '2px solid #22c55e' };
  }
  \<close>
\<close>

definition base_style :: node_style where
  "base_style =
     \<lparr>background = ''#fff'', border = ''1px solid #777'', width = 180, padding = 10,
      borderRadius = 5\<rparr>"

definition score_of :: "node \<Rightarrow> rat" where
  "score_of n = (if truthy_num (risk_score (ndata n)) then the (risk_score (ndata n)) else 0)"

definition node_style_for :: "node \<Rightarrow> bool \<Rightarrow> node_style" where
  "node_style_for n isRiskMode =
     (if isRiskMode
      then (if 75 < score_of n
            then base_style\<lparr>background := ''#fee2e2'', border := ''2px solid #ef4444''\<rparr>
            else if 50 < score_of n
            then base_style\<lparr>background := ''#fef3c7'', border := ''2px solid #f59e0b''\<rparr>
            else base_style\<lparr>background := ''#dcfce7'', border := ''2px solid #22c55e''\<rparr>)
      else base_style)"

text \<open>
  \<^verbatim>\<open>
  label: (
      <div>
          <div className="font-bold">{String(node.data.name || node.id)}</div>
          {isRiskMode && (
              <div className="text-xs mt-1">
                  Risk Score: {node.data.risk_score || 'N/A'}
              </div>
          )}
      </div>
  )
  \<close>
\<close>

definition name_line :: "node \<Rightarrow> string" where
  "name_line n = (if truthy_str (name (ndata n)) then the (name (ndata n)) else nid n)"

definition risk_line :: "(rat \<Rightarrow> string) \<Rightarrow> node \<Rightarrow> string" where
  "risk_line tostr n =
     ''Risk Score: '' @
     (if truthy_num (risk_score (ndata n)) then numberToString tostr (the (risk_score (ndata n)))
      else ''N/A'')"

definition node_label_for :: "(rat \<Rightarrow> string) \<Rightarrow> node \<Rightarrow> bool \<Rightarrow> node_label" where
  "node_label_for tostr n isRiskMode =
     NameLabel (name_line n) (if isRiskMode then Some (risk_line tostr n) else None)"

definition processNode :: "(rat \<Rightarrow> string) \<Rightarrow> bool \<Rightarrow> node \<Rightarrow> node" where
  "processNode tostr isRiskMode n =
     n\<lparr>nstyle := Some (node_style_for n isRiskMode),
       ndata := (ndata n)\<lparr>label := Some (node_label_for tostr n isRiskMode)\<rparr>\<rparr>"

definition processNodes :: "(rat \<Rightarrow> string) \<Rightarrow> node list \<Rightarrow> bool \<Rightarrow> node list" where
  "processNodes tostr ns isRiskMode = map (processNode tostr isRiskMode) ns"

text \<open>The three encodings of the heatmap, and the spec's reading of the edge label.\<close>

definition high_style :: node_style where
  "high_style = base_style\<lparr>background := ''#fee2e2'', border := ''2px solid #ef4444''\<rparr>"

definition medium_style :: node_style where
  "medium_style = base_style\<lparr>background := ''#fef3c7'', border := ''2px solid #f59e0b''\<rparr>"

definition low_style :: node_style where
  "low_style = base_style\<lparr>background := ''#dcfce7'', border := ''2px solid #22c55e''\<rparr>"

section \<open>Responses of the backend\<close>

text \<open>
  What one \<open>fetch\<close> can come back with: the request fails (the promise rejects), or a
  response arrives with its \<open>ok\<close> flag and a body. The body is \<open>None\<close> when it is not
  JSON (\<open>res.json()\<close> rejects), and otherwise the parsed value, of the type the caller
  declares for it.
\<close>

datatype 'a response = NetworkFailure | HttpResponse bool "'a option"

text \<open>
  \<open>fetch(url).then(res => res.json())\<close>, as the explorer page calls it: the status is
  not looked at.
\<close>

definition fetch_json :: "'a response \<Rightarrow> js_error + 'a" where
  "fetch_json r =
     (case r of
        NetworkFailure \<Rightarrow> Inl NetworkError
      | HttpResponse ok body \<Rightarrow> (case body of None \<Rightarrow> Inl SyntaxError | Some d \<Rightarrow> Inr d))"

text \<open>
  \<^verbatim>\<open>
  export async function fetchEntityGraph(entityId: string) {
      const response = await fetch(`${API_BASE_URL}/graph/${entityId}`);
      if (!response.ok) {
          throw new Error('Failed to fetch graph data');
      }
      return response.json();
  }
  \<close>
  The golden-record fetch of \<open>EntityDetails\<close> has the same shape with its own message.
\<close>

definition fetch_checked :: "string \<Rightarrow> 'a response \<Rightarrow> js_error + 'a" where
  "fetch_checked msg r =
     (case r of
        NetworkFailure \<Rightarrow> Inl NetworkError
      | HttpResponse ok body \<Rightarrow>
          if \<not> ok then Inl (HttpError msg)
          else (case body of None \<Rightarrow> Inl SyntaxError | Some d \<Rightarrow> Inr d))"

definition fetchEntityGraph :: "'a response \<Rightarrow> js_error + 'a" where
  "fetchEntityGraph r = fetch_checked ''Failed to fetch graph data'' r"

section \<open>The golden record and its lineage (EntityDetails component)\<close>

record LineageInfo =
  lsource :: string
  payload_id :: string
  confidence :: rat
  file_name :: "string option"
  json_path :: "string option"

datatype field_value = StrValue string | NumValue rat

record EntityData =
  name' :: "string option"
  legal_name :: "string option"
  revenue_usd :: "rat option"
  employee_count :: "rat option"
  jurisdiction_code :: "string option"
  lineage_metadata :: "(string \<times> LineageInfo) list option"

text \<open>
  \<^verbatim>\<open>
  {lineage && (
      <div ...>
          <p><strong>Source:</strong> {lineage.source}</p>
          <p><strong>Payload ID:</strong> {lineage.payload_id.substring(0, 8)}...</p>
          <p><strong>Confidence:</strong> {(lineage.confidence * 100).toFixed(0)}%</p>
          {lineage.file_name && <p ...><strong>File:</strong> {lineage.file_name}</p>}
          {lineage.json_path && <p ...><strong>Path:</strong> {lineage.json_path}</p>}
      </div>
  )}
  \<close>
  A tooltip is the list of its paragraphs, each the bold caption and the text after it.
\<close>

definition tooltip_lines :: "(rat \<Rightarrow> string) \<Rightarrow> LineageInfo \<Rightarrow> (string \<times> string) list" where
  "tooltip_lines tostr l =
     [(''Source:'', lsource l),
      (''Payload ID:'', take 8 (payload_id l) @ ''...''),
      (''Confidence:'', toFixed0 tostr (double_mul (confidence l) 100) @ ''%'')]
     @ (if truthy_str (file_name l) then [(''File:'', the (file_name l))] else [])
     @ (if truthy_str (json_path l) then [(''Path:'', the (json_path l))] else [])"

record rendered_field =
  caption :: string
  shown :: string
  tooltip :: "(string \<times> string) list option"

text \<open>
  \<^verbatim>\<open>
  const renderField = (label: string, fieldKey: string, value: any) => {
      const lineage = data.lineage_metadata?.[fieldKey];
      ... {value !== null && value !== undefined ? value.toLocaleString() : 'N/A'} ...
  \<close>
  \<open>toLocaleString\<close> of a string is the string; of a number it is the locale's grouping,
  the parameter \<open>loc\<close>.
\<close>

definition lineage_of :: "EntityData \<Rightarrow> string \<Rightarrow> LineageInfo option" where
  "lineage_of d fieldKey =
     (case lineage_metadata d of None \<Rightarrow> None | Some m \<Rightarrow> map_of m fieldKey)"

definition renderField ::
  "(rat \<Rightarrow> string) \<Rightarrow> (rat \<Rightarrow> string) \<Rightarrow> EntityData \<Rightarrow> string \<Rightarrow> string \<Rightarrow> field_value option
     \<Rightarrow> rendered_field" where
  "renderField tostr loc d lbl fieldKey v =
     \<lparr>caption = lbl @ '': '',
      shown = (case v of
                 None \<Rightarrow> ''N/A''
               | Some (StrValue s) \<Rightarrow> s
               | Some (NumValue x) \<Rightarrow> loc x),
      tooltip = map_option (tooltip_lines tostr) (lineage_of d fieldKey)\<rparr>"

record details_state =
  data :: "EntityData option"
  d_loading :: bool
  d_error :: string

datatype details_view =
    LoadingView
  | ErrorView string
  | EmptyView
  | RecordView "rendered_field list"

text \<open>
  \<^verbatim>\<open>
  setLoading(true); setError('');
  try {
      const res = await fetch(`.../entities/${entityId}/golden-record`);
      if (!res.ok) throw new Error('Failed to fetch entity details');
      const json = await res.json();
      setData(json);
  } catch (err) {
      setError('Could not load entity details.');
  } finally {
      setLoading(false);
  }
  \<close>
  \<open>fetchData_begin\<close> is the part before the first \<open>await\<close>, \<open>fetchData_end\<close> the part
  that runs when the response is there.
\<close>

definition details_init :: details_state where
  "details_init = \<lparr>data = None, d_loading = False, d_error = ''''\<rparr>"

definition fetchData_begin :: "details_state \<Rightarrow> details_state" where
  "fetchData_begin st = st\<lparr>d_loading := True, d_error := ''''\<rparr>"

definition fetchData_end :: "details_state \<Rightarrow> EntityData response \<Rightarrow> details_state" where
  "fetchData_end st r =
     (case fetch_checked ''Failed to fetch entity details'' r of
        Inr json \<Rightarrow> st\<lparr>data := Some json\<rparr>
      | Inl e \<Rightarrow> st\<lparr>d_error := ''Could not load entity details.''\<rparr>)
     \<lparr>d_loading := False\<rparr>"

definition details_render ::
  "(rat \<Rightarrow> string) \<Rightarrow> (rat \<Rightarrow> string) \<Rightarrow> details_state \<Rightarrow> details_view" where
  "details_render tostr loc st =
     (if d_loading st then LoadingView
      else if d_error st \<noteq> '''' then ErrorView (d_error st)
      else case data st of
             None \<Rightarrow> EmptyView
           | Some d \<Rightarrow>
               RecordView
                 [renderField tostr loc d ''Name'' ''name'' (map_option StrValue (name' d)),
                  renderField tostr loc d ''Legal Name'' ''legal_name''
                    (map_option StrValue (legal_name d)),
                  renderField tostr loc d ''Jurisdiction'' ''jurisdiction_code''
                    (map_option StrValue (jurisdiction_code d)),
                  renderField tostr loc d ''Revenue (USD)'' ''revenue_usd''
                    (map_option NumValue (revenue_usd d)),
                  renderField tostr loc d ''Employees'' ''employee_count''
                    (map_option NumValue (employee_count d))])"

section \<open>The home page: searching a graph\<close>

record graph_payload =
  payload_nodes :: "node list option"
  payload_edges :: "edge list option"

record home_state =
  entityId :: string
  nodes :: "node list"
  edges :: "edge list"
  loading :: bool
  error :: string

definition home_init :: home_state where
  "home_init = \<lparr>entityId = ''804735132'', nodes = [], edges = [], loading = False, error = ''''\<rparr>"

text \<open>The data the page shows when the fetch fails (``Fallback mock data for demo purposes'').\<close>

definition plain_data :: "string \<Rightarrow> node_data" where
  "plain_data s = \<lparr>name = None, risk_score = None, label = Some (TextLabel s)\<rparr>"

definition mock_nodes :: "node list" where
  "mock_nodes =
     [\<lparr>nid = ''1'', position = \<lparr>pos_x = 0, pos_y = 0\<rparr>, ndata = plain_data ''Gorman Mfg'',
       ntype = Some ''input'', nstyle = None\<rparr>,
      \<lparr>nid = ''2'', position = \<lparr>pos_x = 0, pos_y = 100\<rparr>, ndata = plain_data ''Subsidiary A'',
       ntype = None, nstyle = None\<rparr>,
      \<lparr>nid = ''3'', position = \<lparr>pos_x = 200, pos_y = 0\<rparr>, ndata = plain_data ''Subsidiary B'',
       ntype = None, nstyle = None\<rparr>]"

definition mock_edges :: "edge list" where
  "mock_edges =
     [\<lparr>eid = ''e1-2'', source = ''1'', target = ''2'', elabel = Some ''OWNS'', edata = None,
       estyle = None, labelStyle = None\<rparr>,
      \<lparr>eid = ''e1-3'', source = ''1'', target = ''3'', elabel = Some ''PARTNER'', edata = None,
       estyle = None, labelStyle = None\<rparr>]"

text \<open>
  \<^verbatim>\<open>
  const handleSearch = async () => {
    setLoading(true);
    setError('');
    try {
      const data = await fetchEntityGraph(entityId);
      setNodes(data.nodes || []);
      setEdges(data.edges || []);
    } catch (err) {
      setError('Failed to fetch graph data. Is the backend running?');
      setNodes([ ...mock nodes... ]);
      setEdges([ ...mock edges... ]);
    } finally {
      setLoading(false);
    }
  };
  \<close>
\<close>

text \<open>\<open>data.nodes || []\<close> and \<open>data.edges || []\<close>: an array is truthy, also an empty one.\<close>

definition nodes_of :: "graph_payload \<Rightarrow> node list" where
  "nodes_of d = (case payload_nodes d of None \<Rightarrow> [] | Some ns \<Rightarrow> ns)"

definition edges_of :: "graph_payload \<Rightarrow> edge list" where
  "edges_of d = (case payload_edges d of None \<Rightarrow> [] | Some es \<Rightarrow> es)"

definition handleSearch_begin :: "home_state \<Rightarrow> home_state" where
  "handleSearch_begin st = st\<lparr>loading := True, error := ''''\<rparr>"

definition handleSearch_end :: "home_state \<Rightarrow> graph_payload response \<Rightarrow> home_state" where
  "handleSearch_end st r =
     (case fetchEntityGraph r of
        Inr d \<Rightarrow> st\<lparr>nodes := nodes_of d, edges := edges_of d\<rparr>
      | Inl e \<Rightarrow>
          st\<lparr>error := ''Failed to fetch graph data. Is the backend running?'',
             nodes := mock_nodes, edges := mock_edges\<rparr>)
     \<lparr>loading := False\<rparr>"

text \<open>
  The page with its requests in flight. \<open>pending\<close> lists the entity ids of the
  \<open>fetchEntityGraph\<close> calls that have not come back. The user types into the input
  (\<open>setEntityId\<close>) or clicks the button, which is \<open>disabled={loading}\<close>: a click while a
  search is loading does nothing. The backend answers any pending request, in any order.
  An event that cannot happen in a state gives \<open>None\<close>.
\<close>

record home_sys =
  home :: home_state
  pending :: "string list"

datatype home_event =
    SetEntityId string
  | ClickAnalyze
  | GraphResponse nat "graph_payload response"

definition drop_nth :: "nat \<Rightarrow> 'a list \<Rightarrow> 'a list" where
  "drop_nth i xs = take i xs @ drop (Suc i) xs"

fun home_step :: "home_sys \<Rightarrow> home_event \<Rightarrow> home_sys option" where
  "home_step s (SetEntityId v) = Some (s\<lparr>home := (home s)\<lparr>entityId := v\<rparr>\<rparr>)"
| "home_step s ClickAnalyze =
     (if loading (home s) then None
      else Some \<lparr>home = handleSearch_begin (home s), pending = pending s @ [entityId (home s)]\<rparr>)"
| "home_step s (GraphResponse i r) =
     (if i < length (pending s)
      then Some \<lparr>home = handleSearch_end (home s) r, pending = drop_nth i (pending s)\<rparr>
      else None)"

definition home_sys_init :: home_sys where
  "home_sys_init = \<lparr>home = home_init, pending = []\<rparr>"

section \<open>The graph view and its working copy\<close>

text \<open>
  \<^verbatim>\<open>
  const [nodes, setNodes, onNodesChange] = useNodesState([]);
  const [edges, setEdges, onEdgesChange] = useEdgesState([]);

  useEffect(() => {
      setNodes(processNodes(initialNodes, riskMode));
      setEdges(processEdges(initialEdges));
  }, [initialNodes, initialEdges, riskMode, ...]);

  const onConnect = useCallback(
      (params: Connection) => setEdges((eds) => addEdge(params, eds)), [setEdges]);
  \<close>
  \<open>addEdge\<close> and the change handlers of \<open>useNodesState\<close> and \<open>useEdgesState\<close> belong to the
  graph library: they are the fields of \<open>lib\<close>, over the library's types of connections
  and changes.
\<close>

record ('c, 'nc, 'ec) flow_lib =
  addEdge :: "'c \<Rightarrow> edge list \<Rightarrow> edge list"
  applyNodeChanges :: "'nc \<Rightarrow> node list \<Rightarrow> node list"
  applyEdgeChanges :: "'ec \<Rightarrow> edge list \<Rightarrow> edge list"

record viz_state =
  riskMode :: bool
  vnodes :: "node list"
  vedges :: "edge list"

datatype ('c, 'nc, 'ec) viz_event =
    SetRiskMode bool
  | Connect 'c
  | NodesChange 'nc
  | EdgesChange 'ec

definition viz_effect :: "(rat \<Rightarrow> string) \<Rightarrow> node list \<Rightarrow> edge list \<Rightarrow> viz_state \<Rightarrow> viz_state" where
  "viz_effect tostr initialNodes initialEdges v =
     v\<lparr>vnodes := processNodes tostr initialNodes (riskMode v),
       vedges := processEdges tostr initialEdges\<rparr>"

definition viz_init :: viz_state where
  "viz_init = \<lparr>riskMode = False, vnodes = [], vedges = []\<rparr>"

text \<open>
  The page and the view together. The effect of the view runs when one of its
  dependencies has changed: after a response has replaced the page's nodes and edges
  (both branches of \<open>handleSearch\<close> store new arrays), and after the checkbox has changed
  \<open>riskMode\<close>.
\<close>

record app_state =
  page :: home_sys
  view :: viz_state

datatype ('c, 'nc, 'ec) app_event =
    PageEvent home_event
  | ViewEvent "('c, 'nc, 'ec) viz_event"

fun replaces_graph :: "home_event \<Rightarrow> bool" where
  "replaces_graph (GraphResponse i r) = True"
| "replaces_graph e = False"

fun viz_step ::
  "('c, 'nc, 'ec) flow_lib \<Rightarrow> (rat \<Rightarrow> string) \<Rightarrow> home_state \<Rightarrow> viz_state
     \<Rightarrow> ('c, 'nc, 'ec) viz_event \<Rightarrow> viz_state" where
  "viz_step lib tostr h v (SetRiskMode b) =
     (if b = riskMode v then v else viz_effect tostr (nodes h) (edges h) (v\<lparr>riskMode := b\<rparr>))"
| "viz_step lib tostr h v (Connect c) = v\<lparr>vedges := addEdge lib c (vedges v)\<rparr>"
| "viz_step lib tostr h v (NodesChange ch) = v\<lparr>vnodes := applyNodeChanges lib ch (vnodes v)\<rparr>"
| "viz_step lib tostr h v (EdgesChange ch) = v\<lparr>vedges := applyEdgeChanges lib ch (vedges v)\<rparr>"

fun app_step ::
  "('c, 'nc, 'ec) flow_lib \<Rightarrow> (rat \<Rightarrow> string) \<Rightarrow> app_state \<Rightarrow> ('c, 'nc, 'ec) app_event
     \<Rightarrow> app_state option" where
  "app_step lib tostr a (PageEvent e) =
     (case home_step (page a) e of
        None \<Rightarrow> None
      | Some s \<Rightarrow>
          Some \<lparr>page = s,
                view = (if replaces_graph e
                        then viz_effect tostr (nodes (home s)) (edges (home s)) (view a)
                        else view a)\<rparr>)"
| "app_step lib tostr a (ViewEvent e) =
     Some (a\<lparr>view := viz_step lib tostr (home (page a)) (view a) e\<rparr>)"

fun app_run ::
  "('c, 'nc, 'ec) flow_lib \<Rightarrow> (rat \<Rightarrow> string) \<Rightarrow> app_state \<Rightarrow> ('c, 'nc, 'ec) app_event list
     \<Rightarrow> app_state option" where
  "app_run lib tostr a [] = Some a"
| "app_run lib tostr a (e # es) =
     (case app_step lib tostr a e of None \<Rightarrow> None | Some a' \<Rightarrow> app_run lib tostr a' es)"

definition app_init :: app_state where
  "app_init = \<lparr>page = home_sys_init, view = viz_init\<rparr>"

section \<open>The explorer page: modules, dictionary and sample\<close>

text \<open>
  The page declares its module list as \<open>Module[]\<close>, but what it stores is the \<open>any\<close> that
  \<open>res.json()\<close> gave: the state holds \<open>jsval\<close>s, and the body of every response of
  this page is a \<open>jsval\<close>.
\<close>

record explorer_state =
  modules :: jsval
  selectedModule :: jsval
  dictionary :: "DictionaryItem list"
  sample :: jsval
  x_loading :: bool

definition explorer_init :: explorer_state where
  "explorer_init =
     \<lparr>modules = JArr [], selectedModule = JNull, dictionary = [], sample = JNull,
      x_loading = False\<rparr>"

text \<open>
  \<open>v > 0\<close>. \<open>undefined\<close> converts to NaN and \<open>null\<close> to 0, a boolean to 0 or 1. What a
  string, an array or an object converts to is the engine's ToNumber, which is not part
  of this repository: \<open>above0\<close> says whether that number is above 0.
\<close>

definition gt_zero :: "(jsval \<Rightarrow> bool) \<Rightarrow> jsval \<Rightarrow> bool" where
  "gt_zero above0 v =
     (case v of
        JUndefined \<Rightarrow> False
      | JNull \<Rightarrow> False
      | JBool b \<Rightarrow> b
      | JNum x \<Rightarrow> 0 < x
      | JStr s \<Rightarrow> above0 v
      | JArr xs \<Rightarrow> above0 v
      | JObj ps \<Rightarrow> above0 v)"

text \<open>
  \<^verbatim>\<open>
  fetch('.../references/modules')
      .then(res => res.json())
      .then(data => {
          setModules(data);
          if (data.length > 0) setSelectedModule(data[0]);
      })
      .catch(err => console.error("Failed to load modules", err));
  \<close>
  When \<open>data.length\<close> throws, \<open>setModules(data)\<close> has been called already; the exception
  is caught and logged.
\<close>

definition loadModules ::
  "(jsval \<Rightarrow> bool) \<Rightarrow> explorer_state \<Rightarrow> jsval response \<Rightarrow> explorer_state" where
  "loadModules above0 st r =
     (case fetch_json r of
        Inl e \<Rightarrow> st
      | Inr d \<Rightarrow>
          (case getp d ''length'' of
             Inl e \<Rightarrow> st\<lparr>modules := d\<rparr>
           | Inr n \<Rightarrow>
               if gt_zero above0 n
               then (case getp d ''0'' of
                       Inl e \<Rightarrow> st\<lparr>modules := d\<rparr>
                     | Inr m \<Rightarrow> st\<lparr>modules := d, selectedModule := m\<rparr>)
               else st\<lparr>modules := d\<rparr>))"

text \<open>
  \<^verbatim>\<open>
  {modules.map(mod => (
      <li key={mod.id} className={...} onClick={() => setSelectedModule(mod)}>
          <div ...>{mod.name}</div>
          <div ...>
              {mod.has_dictionary && <span ...>Dict</span>}
              {mod.has_sample && <span ...>JSON</span>}
          </div>
      </li>
  ))}
  \<close>
  The sidebar. \<open>modules.map\<close> throws a TypeError when \<open>modules\<close> is not an array, and
  reading \<open>mod.id\<close> throws when an element is \<open>null\<close>. A child that is an object makes
  the rendering throw once the list is built; an array is rendered element by element.
  \<open>a && <span>\<close> is the element when \<open>a\<close> is truthy and \<open>a\<close> itself otherwise. Class
  names are not modelled, and of the page's rendering only the sidebar is.
\<close>

fun renderable :: "jsval \<Rightarrow> bool" where
  "renderable (JObj ps) = False"
| "renderable (JArr xs) = list_all renderable xs"
| "renderable JUndefined = True"
| "renderable JNull = True"
| "renderable (JBool b) = True"
| "renderable (JNum x) = True"
| "renderable (JStr s) = True"

datatype child = Element string | Value jsval

definition and_element :: "jsval \<Rightarrow> string \<Rightarrow> child" where
  "and_element a s = (if truthy a then Element s else Value a)"

record sidebar_item =
  item_key :: jsval
  item_name :: jsval
  item_badges :: "child list"

definition sidebar_item_of :: "jsval \<Rightarrow> js_error + sidebar_item" where
  "sidebar_item_of m =
     bind_e (getp m ''id'') (\<lambda>i.
     bind_e (getp m ''name'') (\<lambda>n.
     bind_e (getp m ''has_dictionary'') (\<lambda>d.
     bind_e (getp m ''has_sample'') (\<lambda>s.
     Inr \<lparr>item_key = i, item_name = n,
          item_badges = [and_element d ''Dict'', and_element s ''JSON'']\<rparr>))))"

definition render_sidebar :: "explorer_state \<Rightarrow> js_error + sidebar_item list" where
  "render_sidebar st =
     bind_e (array_map_e sidebar_item_of (modules st)) (\<lambda>items.
       if list_all (\<lambda>i. renderable (item_name i)) items then Inr items else Inl ReactError)"

text \<open>
  \<^verbatim>\<open>
  setLoading(true);
  const fetchDict = fetch(`.../${selectedModule.id}/dictionary`)
      .then(res => res.json()).catch(() => []);
  const fetchSample = fetch(`.../${selectedModule.id}/sample`)
      .then(res => res.json()).catch(() => null);
  Promise.all([fetchDict, fetchSample]).then(([dictData, sampleData]) => {
      const normalizedDict = dictData.map(...);
      setDictionary(normalizedDict);
      setSample(sampleData);
      setLoading(false);
  });
  \<close>
  An exception inside the last callback is caught by nobody: the result is \<open>Inl\<close>, and
  the state stays as \<open>loadModule_begin\<close> left it, loading.
\<close>

definition loadModule_begin :: "explorer_state \<Rightarrow> explorer_state" where
  "loadModule_begin st = st\<lparr>x_loading := True\<rparr>"

definition loadModule_end ::
  "explorer_state \<Rightarrow> jsval response \<Rightarrow> jsval response \<Rightarrow> js_error + explorer_state" where
  "loadModule_end st dictResp sampleResp =
     (let dictData = (case fetch_json dictResp of Inl e \<Rightarrow> JArr [] | Inr d \<Rightarrow> d);
          sampleData = (case fetch_json sampleResp of Inl e \<Rightarrow> JNull | Inr v \<Rightarrow> v)
      in bind_e (normalizedDict dictData) (\<lambda>nd.
           Inr (st\<lparr>dictionary := nd, sample := sampleData, x_loading := False\<rparr>)))"

section \<open>The spec's reading of the rules, and sample inputs\<close>

text \<open>
  The spec states some rules by presence where the code tests truthiness. The
  definitions below follow the spec's sentences, for comparison with the definitions
  above; the sample nodes and edges carry just the fields a rule reads.
\<close>

text \<open>``fill/border selected by three-way threshold on riskScore (missing score treated as 0)''.\<close>

definition score_or_zero :: "node \<Rightarrow> rat" where
  "score_or_zero n = (case risk_score (ndata n) of None \<Rightarrow> 0 | Some x \<Rightarrow> x)"

definition scored :: "rat option \<Rightarrow> node" where
  "scored s =
     \<lparr>nid = ''n'', position = \<lparr>pos_x = 0, pos_y = 0\<rparr>,
      ndata = \<lparr>name = None, risk_score = s, label = None\<rparr>, ntype = None, nstyle = None\<rparr>"

definition named :: "string \<Rightarrow> string option \<Rightarrow> node" where
  "named i s =
     \<lparr>nid = i, position = \<lparr>pos_x = 0, pos_y = 0\<rparr>,
      ndata = \<lparr>name = s, risk_score = None, label = None\<rparr>, ntype = None, nstyle = None\<rparr>"

text \<open>
  ``label is "{ownershipPercentage}%" when ownershipPercentage is present; otherwise the
  edge's own pre-set label if any; otherwise empty''.
\<close>

definition ownership_of :: "edge \<Rightarrow> rat option" where
  "ownership_of e = (case edata e of None \<Rightarrow> None | Some d \<Rightarrow> ownership_percentage d)"

definition own_label :: "edge \<Rightarrow> string" where
  "own_label e = (case elabel e of None \<Rightarrow> '''' | Some l \<Rightarrow> l)"

definition edge_label_spec :: "(rat \<Rightarrow> string) \<Rightarrow> edge \<Rightarrow> string" where
  "edge_label_spec tostr e =
     (case ownership_of e of
        Some p \<Rightarrow> numberToString tostr p @ ''%''
      | None \<Rightarrow> own_label e)"

definition plain_edge :: "string option \<Rightarrow> rat option option \<Rightarrow> edge" where
  "plain_edge l d =
     \<lparr>eid = ''e'', source = ''a'', target = ''b'', elabel = l,
      edata = map_option (\<lambda>p. \<lparr>ownership_percentage = p\<rparr>) d, estyle = None,
      labelStyle = None\<rparr>"

text \<open>
  ``a risk-score line, showing a literal "not-available" marker when the score is
  absent'', a present score shown numerically.
\<close>

definition risk_line_spec :: "(rat \<Rightarrow> string) \<Rightarrow> node \<Rightarrow> string" where
  "risk_line_spec tostr n =
     ''Risk Score: '' @
     (case risk_score (ndata n) of None \<Rightarrow> ''N/A'' | Some x \<Rightarrow> numberToString tostr x)"

text \<open>The display-name line of a label.\<close>

fun label_name :: "node_label option \<Rightarrow> string" where
  "label_name (Some (NameLabel s r)) = s"
| "label_name (Some (TextLabel s)) = s"
| "label_name None = ''''"

text \<open>
  The lineage entry of the spec's example: source ``ERP'', payload ``abcdefgh1234'',
  confidence 0.87, which as a double is \<open>7836263351624663 / 2^53\<close>.
\<close>

definition sample_lineage :: LineageInfo where
  "sample_lineage =
     \<lparr>lsource = ''ERP'', payload_id = ''abcdefgh1234'',
      confidence = 7836263351624663 / 9007199254740992, file_name = None, json_path = None\<rparr>"

definition sample_entity :: EntityData where
  "sample_entity =
     \<lparr>name' = Some ''Gorman Mfg'', legal_name = None, revenue_usd = Some 1000000,
      employee_count = None, jurisdiction_code = None,
      lineage_metadata = Some [(''revenue_usd'', sample_lineage)]\<rparr>"

text \<open>
  A row that the resolver accepts, and the record it gives for it (the default record
  stands in for the rows it throws on).
\<close>

definition non_null :: "jsval \<Rightarrow> bool" where
  "non_null v = (case v of JUndefined \<Rightarrow> False | JNull \<Rightarrow> False | _ \<Rightarrow> True)"

definition row_item :: "jsval \<Rightarrow> DictionaryItem" where
  "row_item r = (case normalizeItem r of Inl e \<Rightarrow> default_item | Inr d \<Rightarrow> d)"

text \<open>The body of a 404 answer of the backend.\<close>

definition not_found :: jsval where
  "not_found = JObj [(''detail'', JStr ''Not Found'')]"

text \<open>
  What counts as a failed fetch. The explorer page does not look at the status: its
  fetches fail when the request fails or the body is not JSON. The graph and the
  golden-record fetches fail on a status that is not OK as well.
\<close>

definition unchecked_failure :: "'a response \<Rightarrow> bool" where
  "unchecked_failure r =
     (case r of NetworkFailure \<Rightarrow> True | HttpResponse ok body \<Rightarrow> body = None)"

definition checked_failure :: "'a response \<Rightarrow> bool" where
  "checked_failure r =
     (case r of
        NetworkFailure \<Rightarrow> True
      | HttpResponse ok body \<Rightarrow> (if ok then body = None else True))"

text \<open>
  At most one graph request is in flight: one while the page is loading, none
  otherwise.
\<close>

definition one_in_flight :: "home_sys \<Rightarrow> bool" where
  "one_in_flight s = (if loading (home s) then length (pending s) = 1 else pending s = [])"

text \<open>
  A sample session. The library stand-in appends the drawn edge and moves the dragged
  node. The user searches entity A and gets its graph; draws an edge and drags a node;
  types B and searches again.
\<close>

definition sample_lib :: "(edge, string \<times> position, unit) flow_lib" where
  "sample_lib =
     \<lparr>addEdge = (\<lambda>c es. es @ [c]),
      applyNodeChanges =
        (\<lambda>ch ns. map (\<lambda>n. if nid n = fst ch then n\<lparr>position := snd ch\<rparr> else n) ns),
      applyEdgeChanges = (\<lambda>ch es. es)\<rparr>"

definition graph_a :: graph_payload where
  "graph_a =
     \<lparr>payload_nodes = Some [named ''a1'' (Some ''Alpha''), named ''a2'' None],
      payload_edges = Some [plain_edge None (Some (Some 40))]\<rparr>"

definition graph_b :: graph_payload where
  "graph_b = \<lparr>payload_nodes = Some [named ''b1'' (Some ''Beta'')], payload_edges = None\<rparr>"

definition loaded_a :: "(edge, string \<times> position, unit) app_event list" where
  "loaded_a =
     [PageEvent (SetEntityId ''A''), PageEvent ClickAnalyze,
      PageEvent (GraphResponse 0 (HttpResponse True (Some graph_a)))]"

definition drawn :: "(edge, string \<times> position, unit) app_event list" where
  "drawn =
     [ViewEvent (Connect (plain_edge (Some ''mine'') None)),
      ViewEvent (NodesChange (''a1'', \<lparr>pos_x = 5, pos_y = 7\<rparr>))]"

definition search_b :: "(edge, string \<times> position, unit) app_event list" where
  "search_b = [PageEvent (SetEntityId ''B''), PageEvent ClickAnalyze]"

section \<open>Evaluation on numerals\<close>

text \<open>
  The recursive equations of \<open>decimal\<close> and \<open>log2floor\<close> unfold only at numerals, where
  their tests are decided.
\<close>

declare decimal.simps [simp del]
declare log2floor.simps [simp del]

lemma decimal_numeral [simp]:
  "decimal (numeral k) =
     (if (numeral k :: nat) < 10 then [digit_char (numeral k)]
      else decimal (numeral k div 10) @ [digit_char (numeral k mod 10)])"
  by (rule decimal.simps)

lemma decimal_0 [simp]: "decimal 0 = ''0''"
  by (simp add: decimal.simps digit_char_def)

lemma decimal_1 [simp]: "decimal 1 = ''1''"
  by (simp add: decimal.simps digit_char_def)

lemma decimal_Suc_0 [simp]: "decimal (Suc 0) = ''1''"
  by (simp add: decimal.simps digit_char_def)

lemma log2floor_numeral [simp]:
  "log2floor (numeral k) =
     (if (numeral k :: nat) < 2 then 0 else Suc (log2floor (numeral k div 2)))"
  by (rule log2floor.simps)

lemma log2floor_0 [simp]: "log2floor 0 = 0"
  by (simp add: log2floor.simps)

lemma log2floor_1 [simp]: "log2floor 1 = 0"
  by (simp add: log2floor.simps)

lemma log2floor_Suc_0 [simp]: "log2floor (Suc 0) = 0"
  by (simp add: log2floor.simps)

lemma floor_rat_numeral_div [simp]:
  "\<lfloor>numeral a / numeral b :: rat\<rfloor> = numeral a div numeral b"
  using floor_divide_of_int_eq [of "numeral a" "numeral b", where ?'a = rat] by simp

lemma floor_rat_neg_numeral_div [simp]:
  "\<lfloor>- (numeral a / numeral b) :: rat\<rfloor> = (- numeral a) div numeral b"
  using floor_divide_of_int_eq [of "- numeral a" "numeral b", where ?'a = rat] by simp

lemma ceiling_rat_numeral_div [simp]:
  "\<lceil>numeral a / numeral b :: rat\<rceil> = - ((- numeral a) div numeral b)"
  by (simp add: ceiling_def)

section \<open>Node visuals\<close>

lemma score_of_or_zero: "score_of n = score_or_zero n"
  by (simp add: score_of_def score_or_zero_def truthy_num_def split: option.splits)

lemma nstyle_processNode: "nstyle (processNode tostr m n) = Some (node_style_for n m)"
  by (simp add: processNode_def)

lemma label_processNode:
  "label (ndata (processNode tostr m n)) = Some (node_label_for tostr n m)"
  by (simp add: processNode_def)

lemma node_style_for_risk:
  "node_style_for n True =
     (if 75 < score_of n then high_style
      else if 50 < score_of n \<and> score_of n \<le> 75 then medium_style
      else low_style)"
  by (simp add: node_style_for_def high_style_def medium_style_def low_style_def)

lemma node_style_for_normal: "node_style_for n False = base_style"
  by (simp add: node_style_for_def)

lemma styles_distinct:
  "high_style \<noteq> medium_style \<and> medium_style \<noteq> low_style \<and> high_style \<noteq> low_style"
  by (simp add: high_style_def medium_style_def low_style_def base_style_def)

text \<open>
  Claim C2. In risk mode the style of every node is chosen by its score, a missing score
  counting as 0: above 75 the high encoding, above 50 and up to 75 the medium one, up to
  50 the low one; the three encodings differ. Scores 76, 75, 51, 50, 0 and a missing score
  give high, medium, medium, low, low, low. In normal mode every node gets the one neutral
  style, whatever its score.
\<close>

theorem risk_mode_style_by_threshold:
  "map nstyle (processNodes tostr ns True) =
     map (\<lambda>n. Some (if 75 < score_or_zero n then high_style
                     else if 50 < score_or_zero n \<and> score_or_zero n \<le> 75 then medium_style
                     else low_style)) ns
   \<and> map nstyle (processNodes tostr ns False) = map (\<lambda>n. Some base_style) ns
   \<and> map nstyle
        (processNodes tostr (map scored [Some 76, Some 75, Some 51, Some 50, Some 0, None]) True) =
       map Some [high_style, medium_style, medium_style, low_style, low_style, low_style]
   \<and> high_style \<noteq> medium_style \<and> medium_style \<noteq> low_style \<and> high_style \<noteq> low_style"
  by (simp add: processNodes_def nstyle_processNode node_style_for_risk node_style_for_normal
      score_of_or_zero score_or_zero_def scored_def styles_distinct)

lemma risk_line_eq:
  "risk_line tostr n =
     ''Risk Score: '' @
     (case risk_score (ndata n) of
        None \<Rightarrow> ''N/A''
      | Some x \<Rightarrow> if x = 0 then ''N/A'' else numberToString tostr x)"
  by (simp add: risk_line_def truthy_num_def split: option.splits)

text \<open>
  Claim C7, as the spec states it, fails for a node whose score is 0: the score is
  present, the spec's line would read ``Risk Score: 0'', and the component shows the
  not-available marker.
\<close>

theorem zero_score_shows_not_available:
  "label (ndata (processNode (\<lambda>x. []) True (scored (Some 0)))) =
     Some (NameLabel ''n'' (Some ''Risk Score: N/A''))
   \<and> risk_line_spec (\<lambda>x. []) (scored (Some 0)) = ''Risk Score: 0''"
  by (simp add: label_processNode node_label_for_def risk_line_eq risk_line_spec_def scored_def
      name_line_def truthy_str_def numberToString_def)

text \<open>
  Claim C7, amended. In risk mode the label of every node is its display name and a
  risk-score line; the line shows the not-available marker when the score is absent or
  0, and the number when the score is present and not 0. A missing score, the score 0
  and the score 80 give ``N/A'', ``N/A'' and ``80''.
\<close>

theorem risk_mode_label_score_line:
  "map (\<lambda>n. label (ndata n)) (processNodes tostr ns True) =
     map (\<lambda>n. Some (NameLabel (name_line n)
            (Some (''Risk Score: '' @
              (case risk_score (ndata n) of
                 None \<Rightarrow> ''N/A''
               | Some x \<Rightarrow> if x = 0 then ''N/A'' else numberToString tostr x))))) ns
   \<and> map (\<lambda>n. label (ndata n))
        (processNodes tostr [scored None, scored (Some 0), scored (Some 80)] True) =
       [Some (NameLabel ''n'' (Some ''Risk Score: N/A'')),
        Some (NameLabel ''n'' (Some ''Risk Score: N/A'')),
        Some (NameLabel ''n'' (Some ''Risk Score: 80''))]"
  by (simp add: processNodes_def label_processNode node_label_for_def risk_line_eq scored_def
      name_line_def truthy_str_def numberToString_def digit_char_def)

text \<open>
  Claim C10, as stated, fails for a node without a name whose id is the empty string:
  the fallback is the id, and the label is blank.
\<close>

theorem empty_id_labels_blank:
  "label_name (label (ndata (processNode (\<lambda>x. []) False (named '''' None)))) = ''''"
  by (simp add: label_processNode node_label_for_def named_def name_line_def truthy_str_def)

text \<open>
  Claim C10, amended. In both modes the display-name line of every node is its name, and
  the node's id when the name is missing or empty; so a node whose id is not empty is
  never labelled blank.
\<close>

theorem display_name_falls_back_to_id:
  "map (\<lambda>n. label_name (label (ndata n))) (processNodes tostr ns m) =
     map (\<lambda>n. case name (ndata n) of
                 None \<Rightarrow> nid n
               | Some s \<Rightarrow> if s = '''' then nid n else s) ns
   \<and> (nid n \<noteq> '''' \<longrightarrow> label_name (label (ndata (processNode tostr m n))) \<noteq> '''')"
  by (auto simp add: processNodes_def label_processNode node_label_for_def name_line_def
      truthy_str_def split: option.splits)

text \<open>
  Claim C10, an instance. The node with id ``7'' is labelled ``7'' when its name is empty
  and when it has none.
\<close>

theorem display_name_falls_back_to_id_witness:
  "nid (named ''7'' None) \<noteq> ''''
   \<and> label_name (label (ndata (processNode (\<lambda>x. []) True (named ''7'' (Some ''''))))) = ''7''
   \<and> label_name (label (ndata (processNode (\<lambda>x. []) True (named ''7'' None)))) \<noteq> ''''"
  using display_name_falls_back_to_id [of "\<lambda>x. []" "[]" True "named ''7'' None"]
  by (simp add: label_processNode node_label_for_def named_def name_line_def truthy_str_def)

section \<open>Edge labels\<close>

lemma edge_label_eq:
  "edge_label tostr e =
     (case ownership_of e of
        Some p \<Rightarrow> if p \<noteq> 0 then numberToString tostr p @ ''%'' else own_label e
      | None \<Rightarrow> own_label e)"
  by (auto simp add: edge_label_def ownership_of_def own_label_def truthy_num_def truthy_str_def
      split: option.splits)

text \<open>
  Claim C3, as stated, fails for an edge whose ownership percentage is 0 and whose own
  label is ``PARTNER'': the percentage is present, the spec's label is ``0%'', and the
  component keeps ``PARTNER''.
\<close>

theorem zero_ownership_keeps_own_label:
  "elabel (processEdge (\<lambda>x. []) (plain_edge (Some ''PARTNER'') (Some (Some 0)))) =
     Some ''PARTNER''
   \<and> edge_label_spec (\<lambda>x. []) (plain_edge (Some ''PARTNER'') (Some (Some 0))) = ''0%''"
  by (simp add: processEdge_def edge_label_eq edge_label_spec_def ownership_of_def own_label_def
      plain_edge_def numberToString_def)

text \<open>
  Claim C3, amended. The label of every edge is its ownership percentage followed by
  \<open>%\<close> when the percentage is present and not 0; otherwise the edge's own label if it
  has one; otherwise the empty string. A percentage of 40 gives ``40%''; the label
  ``PARTNER'' without a percentage stays; an edge with neither gets the empty label.
\<close>

theorem edge_label_rule:
  "map elabel (processEdges tostr es) =
     map (\<lambda>e. Some (case ownership_of e of
                      Some p \<Rightarrow> if p \<noteq> 0 then numberToString tostr p @ ''%'' else own_label e
                    | None \<Rightarrow> own_label e)) es
   \<and> map elabel (processEdges tostr
        [plain_edge None (Some (Some 40)), plain_edge (Some ''PARTNER'') None,
         plain_edge (Some ''PARTNER'') (Some None), plain_edge None None]) =
       [Some ''40%'', Some ''PARTNER'', Some ''PARTNER'', Some '''']"
  by (simp add: processEdges_def processEdge_def edge_label_eq ownership_of_def own_label_def
      plain_edge_def numberToString_def digit_char_def)

section \<open>The resolver\<close>

lemma or_else_getp_obj: "or_else (getp (JObj ps) a) (Inr d) = Inr (first_truthy ps [a] d)"
  by (simp split: option.splits)

lemma first_truthy_merge:
  "first_truthy ps [a] (first_truthy ps as d) = first_truthy ps (a # as) d"
  by (simp split: option.splits)

lemma normalizeItem_JObj:
  "normalizeItem (JObj ps) =
     Inr \<lparr>fieldName = first_truthy ps [''Field Name'', ''Element Name'', ''Name''] (JStr ''Unknown''),
          description = first_truthy ps [''Description'', ''Definition''] (JStr ''''),
          dnbCode = first_truthy ps [''D&B Code'', ''Dnb Code''] (JStr ''''),
          type' = first_truthy ps [''Data Type'', ''Type''] (JStr ''''),
          length' = first_truthy ps [''Length''] (JStr '''')\<rparr>"
  by (simp only: normalizeItem_def or_else_getp_obj first_truthy_merge bind_e.simps)

lemma normalizeItem_JArr: "normalizeItem (JArr xs) = Inr default_item"
  by (simp add: normalizeItem_def default_item_def index_key_def is_digit_def)

lemma normalizeItem_JStr: "normalizeItem (JStr s) = Inr default_item"
  by (simp add: normalizeItem_def default_item_def index_key_def is_digit_def)

lemma normalizeItem_JNum: "normalizeItem (JNum x) = Inr default_item"
  by (simp add: normalizeItem_def default_item_def)

lemma normalizeItem_JBool: "normalizeItem (JBool b) = Inr default_item"
  by (simp add: normalizeItem_def default_item_def)

lemma normalizeItem_JNull: "normalizeItem JNull = Inl TypeError"
  by (simp add: normalizeItem_def)

lemma normalizeItem_JUndefined: "normalizeItem JUndefined = Inl TypeError"
  by (simp add: normalizeItem_def)

text \<open>
  Claim C1, as stated, fails for the record \<open>{"Field Name": "", "Element Name": "X"}\<close>:
  the first alias key is present with the empty string, which the spec's scan takes, and
  the resolver passes it over and takes ``X''.
\<close>

theorem empty_string_alias_is_skipped:
  "normalizeItem (JObj [(''Field Name'', JStr ''''), (''Element Name'', JStr ''X'')]) =
     Inr (default_item\<lparr>fieldName := JStr ''X''\<rparr>)
   \<and> first_present [(''Field Name'', JStr ''''), (''Element Name'', JStr ''X'')]
        [''Field Name'', ''Element Name'', ''Name''] (JStr ''Unknown'') = JStr ''''"
  by (simp add: normalizeItem_JObj default_item_def)

text \<open>
  Claim C1, amended. For every raw dictionary record, each canonical field takes the value
  of the first of its aliases, in the order of the source, whose value in the record is
  truthy: an alias that is absent, or whose value is the empty string, 0, \<open>false\<close> or
  \<open>null\<close>, is passed over. When no alias has a truthy value the field takes its default:
  ``Unknown'' for \<open>fieldName\<close>, the empty string for the others. The record
  \<open>{"Field Name": "X", "Data Type": "T"}\<close> resolves to \<open>fieldName\<close> ``X'', \<open>type\<close> ``T''
  and empty strings elsewhere.
\<close>

theorem resolver_takes_first_truthy_alias:
  "normalizeItem (JObj ps) =
     Inr \<lparr>fieldName = first_truthy ps [''Field Name'', ''Element Name'', ''Name''] (JStr ''Unknown''),
          description = first_truthy ps [''Description'', ''Definition''] (JStr ''''),
          dnbCode = first_truthy ps [''D&B Code'', ''Dnb Code''] (JStr ''''),
          type' = first_truthy ps [''Data Type'', ''Type''] (JStr ''''),
          length' = first_truthy ps [''Length''] (JStr '''')\<rparr>
   \<and> normalizeItem (JObj [(''Field Name'', JStr ''X''), (''Data Type'', JStr ''T'')]) =
       Inr \<lparr>fieldName = JStr ''X'', description = JStr '''', dnbCode = JStr '''',
            type' = JStr ''T'', length' = JStr ''''\<rparr>"
  by (simp add: normalizeItem_JObj)

text \<open>
  Claim C4, as stated, fails twice: for the row \<open>null\<close> the resolver throws a TypeError,
  and the default of \<open>fieldName\<close>, which the empty record gets, is ``Unknown'' and not the
  empty string.
\<close>

theorem null_row_throws_and_default_name_is_unknown:
  "normalizeItem JNull = Inl TypeError
   \<and> normalizeItem (JObj []) =
       Inr \<lparr>fieldName = JStr ''Unknown'', description = JStr '''', dnbCode = JStr '''',
            type' = JStr '''', length' = JStr ''''\<rparr>"
  by (simp add: normalizeItem_JNull normalizeItem_JObj)

text \<open>
  Claim C4, amended. The resolver returns a record, and does not throw, for every input
  but \<open>null\<close> and \<open>undefined\<close>, for which it throws a TypeError. For the empty record and
  for every input that is not a key-value structure (a boolean, a number, a string, an
  array) the record is the default-filled one: ``Unknown'' for \<open>fieldName\<close> and the empty
  string for the other fields.
\<close>

theorem resolver_total_but_for_null:
  "(\<exists>r. normalizeItem item = Inr r) = (item \<noteq> JNull \<and> item \<noteq> JUndefined)
   \<and> normalizeItem JNull = Inl TypeError
   \<and> normalizeItem JUndefined = Inl TypeError
   \<and> normalizeItem (JObj []) = Inr default_item
   \<and> normalizeItem (JBool b) = Inr default_item
   \<and> normalizeItem (JNum x) = Inr default_item
   \<and> normalizeItem (JStr s) = Inr default_item
   \<and> normalizeItem (JArr xs) = Inr default_item
   \<and> default_item =
       \<lparr>fieldName = JStr ''Unknown'', description = JStr '''', dnbCode = JStr '''',
        type' = JStr '''', length' = JStr ''''\<rparr>"
proof -
  have "(\<exists>r. normalizeItem item = Inr r) = (item \<noteq> JNull \<and> item \<noteq> JUndefined)"
    by (cases item)
      (simp_all add: normalizeItem_JObj normalizeItem_JArr normalizeItem_JStr normalizeItem_JNum
        normalizeItem_JBool normalizeItem_JNull normalizeItem_JUndefined)
  moreover have "normalizeItem (JObj []) = Inr default_item"
    by (simp add: normalizeItem_JObj default_item_def)
  ultimately show ?thesis
    by (simp add: normalizeItem_JArr normalizeItem_JStr normalizeItem_JNum normalizeItem_JBool
        normalizeItem_JNull normalizeItem_JUndefined default_item_def)
qed

section \<open>The lineage tooltip\<close>

lemma log2floor_bounds:
  "0 < n \<Longrightarrow> 2 ^ log2floor n \<le> n \<and> n < 2 ^ Suc (log2floor n)"
proof (induction n rule: log2floor.induct)
  case (1 n)
  show ?case
  proof (cases "n < 2")
    case True
    with "1.prems" have "n = 1" by simp
    then show ?thesis by simp
  next
    case False
    then have "0 < n div 2" by simp
    from "1.IH" [OF False this]
    have lo: "2 ^ log2floor (n div 2) \<le> n div 2" and hi: "n div 2 < 2 ^ Suc (log2floor (n div 2))"
      by simp_all
    have eq: "log2floor n = Suc (log2floor (n div 2))" using False by (simp add: log2floor.simps [of n])
    from lo have "2 * 2 ^ log2floor (n div 2) \<le> n" by linarith
    moreover from hi have "n < 2 * 2 ^ Suc (log2floor (n div 2))" by linarith
    ultimately show ?thesis by (simp add: eq)
  qed
qed

lemma binary_exponent_bounds:
  assumes "x \<noteq> 0"
  shows "2 powi binary_exponent x \<le> \<bar>x\<bar> \<and> \<bar>x\<bar> < 2 powi (binary_exponent x + 1)"
proof (cases "1 \<le> \<bar>x\<bar>")
  case True
  define n where "n = nat \<lfloor>\<bar>x\<bar>\<rfloor>"
  have fl: "1 \<le> \<lfloor>\<bar>x\<bar>\<rfloor>" using True by (simp add: le_floor_iff)
  then have n0: "0 < n" by (simp add: n_def)
  have "of_int \<lfloor>\<bar>x\<bar>\<rfloor> \<le> \<bar>x\<bar>" and "\<bar>x\<bar> < of_int \<lfloor>\<bar>x\<bar>\<rfloor> + 1" by linarith+
  with fl have nx: "of_nat n \<le> \<bar>x\<bar>" and xn: "\<bar>x\<bar> < of_nat n + 1"
    by (simp_all add: n_def)
  from log2floor_bounds [OF n0]
  have lo: "2 ^ log2floor n \<le> n" and hi: "n + 1 \<le> 2 ^ Suc (log2floor n)" by simp_all
  have "(2 :: rat) ^ log2floor n = of_nat (2 ^ log2floor n)" by simp
  also have "\<dots> \<le> of_nat n" using lo by (simp only: of_nat_le_iff)
  also note nx
  finally have a: "(2 :: rat) ^ log2floor n \<le> \<bar>x\<bar>" .
  have "(of_nat n + 1 :: rat) = of_nat (n + 1)" by simp
  also have "\<dots> \<le> of_nat (2 ^ Suc (log2floor n))" using hi by (simp only: of_nat_le_iff)
  also have "\<dots> = (2 :: rat) ^ Suc (log2floor n)" by simp
  finally have "(of_nat n + 1 :: rat) \<le> 2 ^ Suc (log2floor n)" .
  with xn have b: "\<bar>x\<bar> < (2 :: rat) ^ Suc (log2floor n)" by (rule less_le_trans)
  have e: "binary_exponent x = int (log2floor n)" using True by (simp add: binary_exponent_def n_def)
  have e1: "binary_exponent x + 1 = int (Suc (log2floor n))" by (simp add: e)
  show ?thesis unfolding e1 unfolding e using a b by (simp only: power_int_of_nat) 
next
  case False
  define y where "y = 1 / \<bar>x\<bar>"
  define m where "m = nat (\<lceil>y\<rceil> - 1)"
  have xpos: "0 < \<bar>x\<bar>" using assms by simp
  have y1: "1 < y" using False xpos by (simp add: y_def)
  then have c2: "2 \<le> \<lceil>y\<rceil>" by (simp add: le_ceiling_iff)
  then have m0: "0 < m" by (simp add: m_def)
  have my: "of_nat m < y" and ym: "y \<le> of_nat m + 1"
  proof -
    have "of_int (\<lceil>y\<rceil> - 1) < y" by linarith
    with c2 show "of_nat m < y" by (simp add: m_def)
    have "y \<le> of_int \<lceil>y\<rceil>" by linarith
    with c2 show "y \<le> of_nat m + 1" by (simp add: m_def)
  qed
  define l where "l = log2floor m"
  from log2floor_bounds [OF m0]
  have lo: "2 ^ l \<le> m" and hi: "m + 1 \<le> 2 ^ Suc l" by (simp_all add: l_def)
  have "(2 :: rat) ^ l = of_nat (2 ^ l)" by simp
  also have "\<dots> \<le> of_nat m" using lo by (simp only: of_nat_le_iff)
  also note my
  finally have a: "(2 :: rat) ^ l < y" .
  have "(of_nat m + 1 :: rat) = of_nat (m + 1)" by simp
  also have "\<dots> \<le> of_nat (2 ^ Suc l)" using hi by (simp only: of_nat_le_iff)
  also have "\<dots> = (2 :: rat) ^ Suc l" by simp
  finally have "(of_nat m + 1 :: rat) \<le> 2 ^ Suc l" .
  with ym have b: "y \<le> (2 :: rat) ^ Suc l" by (rule order_trans)
  have e: "binary_exponent x = - int (Suc l)" 
    using False m0 by (simp add: binary_exponent_def bit_length_def m_def y_def l_def)
  have e1: "binary_exponent x + 1 = - int l" by (simp add: e)
  have p1: "(2 :: rat) powi (- int (Suc l)) = 1 / 2 ^ Suc l"
    by (simp only: power_int_minus power_int_of_nat inverse_eq_divide)
  have p2: "(2 :: rat) powi (- int l) = 1 / 2 ^ l"
    by (simp only: power_int_minus power_int_of_nat inverse_eq_divide)
  have xy: "\<bar>x\<bar> = 1 / y" by (simp add: y_def)
  have ypos: "0 < y" using y1 by simp
  have "1 / (2 :: rat) ^ Suc l \<le> 1 / y" using b ypos by (simp add: frac_le)
  moreover have "1 / y < 1 / (2 :: rat) ^ l" using a by (simp add: frac_less2)
  ultimately show ?thesis unfolding e1 unfolding e p1 p2 xy by simp
qed


lemma round_ties_even_near: "\<bar>of_int (round_ties_even q) - q\<bar> \<le> 1 / 2"
proof -
  have "of_int \<lfloor>q\<rfloor> \<le> q" and "q < of_int \<lfloor>q\<rfloor> + 1" by linarith+
  then show ?thesis by (auto simp add: round_ties_even_def Let_def)
qed

lemma round_ties_even_abs_le:
  assumes "\<bar>q\<bar> \<le> of_int N"
  shows "\<bar>round_ties_even q\<bar> \<le> N"
proof -
  have lo: "of_int \<lfloor>q\<rfloor> \<le> q" and hi: "q < of_int \<lfloor>q\<rfloor> + 1" by linarith+
  from assms have a: "q \<le> of_int N" and b: "of_int (- N) \<le> q" by (simp_all add: abs_le_iff)
  from a have fl: "\<lfloor>q\<rfloor> \<le> N" by (simp add: floor_le_iff)
  from b have fb: "- N \<le> \<lfloor>q\<rfloor>" by (simp only: le_floor_iff)
  show ?thesis
  proof (cases "\<lfloor>q\<rfloor> = N")
    case True
    then have "q - of_int \<lfloor>q\<rfloor> \<le> 0" using a by simp
    then show ?thesis using True fb by (simp add: round_ties_even_def Let_def)
  next
    case False
    with fl have "\<lfloor>q\<rfloor> + 1 \<le> N" by simp
    then show ?thesis using fl fb by (auto simp add: round_ties_even_def Let_def)
  qed
qed

text \<open>
  What \<open>to_double\<close> returns is a double, and the nearest one: a mantissa of at most 53 bits
  at the exponent of \<open>x\<close> (or at the least exponent), at most half a unit in the last place
  away from \<open>x\<close>.
\<close>

lemma to_double_is_nearest_double:
  assumes "to_double x = Fin r"
  shows "\<exists>m. r = of_int m * 2 powi (max (binary_exponent x) (- 1022) - 52)
           \<and> \<bar>m\<bar> \<le> 2 ^ 53 \<and> \<bar>r\<bar> < 2 powi 1024
           \<and> \<bar>r - x\<bar> \<le> 2 powi (max (binary_exponent x) (- 1022) - 52) / 2"
proof (cases "x = 0")
  case True
  with assms(1) have "r = 0" by (simp add: to_double_def)
  then show ?thesis using True by (intro exI [of _ 0]) simp
next
  case False
  define e where "e = max (binary_exponent x) (- 1022)"
  define u :: rat where "u = 2 powi (e - 52)"
  define m where "m = round_ties_even (x / u)"
  have upos: "0 < u" by (simp add: u_def)
  from assms(1) False have r: "r = of_int m * u" and fin: "\<not> 2 powi 1024 \<le> \<bar>r\<bar>"
    by (simp_all add: to_double_def Let_def e_def [symmetric] u_def [symmetric] m_def [symmetric]
        split: if_splits)
  have "\<bar>x\<bar> < 2 powi (binary_exponent x + 1)" using binary_exponent_bounds [OF False] by simp
  also have "\<dots> \<le> 2 powi (e + 1)" by (rule power_int_increasing) (simp_all add: e_def)
  finally have xe: "\<bar>x\<bar> < 2 powi (e + 1)" .
  have "(2 :: rat) powi (53 + (e - 52)) = 2 powi 53 * 2 powi (e - 52)"
    by (rule power_int_add) simp
  moreover have "53 + (e - 52) = e + 1" by simp
  moreover have "(2 :: rat) powi 53 = 2 ^ 53" by (simp add: power_int_def)
  ultimately have ue: "(2 :: rat) powi (e + 1) = 2 ^ 53 * u" by (simp only: u_def)
  have "\<bar>x / u\<bar> = \<bar>x\<bar> / u" using upos by simp
  also have "\<dots> \<le> 2 ^ 53" using xe upos by (simp add: ue pos_divide_le_eq)
  finally have "\<bar>x / u\<bar> \<le> of_int (2 ^ 53)" by simp
  then have m53: "\<bar>m\<bar> \<le> 2 ^ 53" unfolding m_def by (rule round_ties_even_abs_le)
  have "r - x = (of_int m - x / u) * u" using upos by (simp add: r algebra_simps)
  then have "\<bar>r - x\<bar> = \<bar>of_int m - x / u\<bar> * u" using upos by (simp add: abs_mult)
  also have "\<dots> \<le> (1 / 2) * u" using round_ties_even_near [of "x / u"] upos
    by (simp only: m_def mult_le_cancel_right_pos)
  finally have near: "\<bar>r - x\<bar> \<le> u / 2" by simp
  from r m53 fin near show ?thesis unfolding u_def e_def by (intro exI [of _ m]) simp
qed

lemma log2floor_mono: "m \<le> n \<Longrightarrow> log2floor m \<le> log2floor n"
proof (induction n arbitrary: m rule: log2floor.induct)
  case (1 n)
  show ?case
  proof (cases "m < 2")
    case True
    then show ?thesis by (simp add: log2floor.simps [of m])
  next
    case False
    with "1.prems" have n2: "\<not> n < 2" by simp
    have "m div 2 \<le> n div 2" using "1.prems" by (rule div_le_mono)
    from "1.IH" [OF n2 this] False n2 show ?thesis
      by (simp add: log2floor.simps [of m] log2floor.simps [of n])
  qed
qed

lemma binary_exponent_le_6:
  assumes "\<bar>x\<bar> \<le> 100"
  shows "binary_exponent x \<le> 6"
proof (cases "1 \<le> \<bar>x\<bar>")
  case True
  have "\<lfloor>\<bar>x\<bar>\<rfloor> \<le> 100" using assms by (simp add: floor_le_iff)
  then have "nat \<lfloor>\<bar>x\<bar>\<rfloor> \<le> 100" by linarith
  then have "log2floor (nat \<lfloor>\<bar>x\<bar>\<rfloor>) \<le> log2floor 100" by (rule log2floor_mono)
  with True show ?thesis by (simp add: binary_exponent_def)
next
  case False
  then show ?thesis by (simp add: binary_exponent_def)
qed

lemma round_ties_even_nonneg: "0 \<le> q \<Longrightarrow> 0 \<le> round_ties_even q"
  by (simp add: round_ties_even_def Let_def)

lemma round_ties_even_le:
  assumes "q \<le> of_int N"
  shows "round_ties_even q \<le> N"
proof -
  have fl: "\<lfloor>q\<rfloor> \<le> N" using assms by (simp add: floor_le_iff)
  show ?thesis
  proof (cases "\<lfloor>q\<rfloor> = N")
    case True
    then have "q - of_int \<lfloor>q\<rfloor> \<le> 0" using assms by simp
    then show ?thesis using True by (simp add: round_ties_even_def Let_def)
  next
    case False
    with fl have "\<lfloor>q\<rfloor> + 1 \<le> N" by simp
    then show ?thesis using fl by (simp add: round_ties_even_def Let_def)
  qed
qed

text \<open>The double nearest to a number between 0 and 100 lies between 0 and 100.\<close>

lemma to_double_percent:
  assumes "0 \<le> x" "x \<le> 100"
  shows "\<exists>p. to_double x = Fin p \<and> 0 \<le> p \<and> p \<le> 100"
proof (cases "x = 0")
  case True
  then show ?thesis by (simp add: to_double_def)
next
  case False
  define e where "e = max (binary_exponent x) (- 1022)"
  define k where "k = nat (52 - e)"
  define u :: rat where "u = 2 powi (e - 52)"
  define r where "r = of_int (round_ties_even (x / u)) * u"
  have "binary_exponent x \<le> 6" using assms by (intro binary_exponent_le_6) simp
  then have e6: "e \<le> 6" by (simp add: e_def)
  then have ek: "e - 52 = - int k" by (simp add: k_def)
  have u_eq: "u = 1 / 2 ^ k" by (simp add: u_def ek power_int_minus inverse_eq_divide)
  have upos: "0 < u" by (simp add: u_eq)
  have q0: "0 \<le> x / u" using assms upos by simp
  have "x / u \<le> 100 * 2 ^ k" using assms by (simp add: u_eq)
  then have "x / u \<le> of_int (100 * 2 ^ k)" by simp
  then have "round_ties_even (x / u) \<le> 100 * 2 ^ k" by (rule round_ties_even_le)
  then have "(of_int (round_ties_even (x / u)) :: rat) \<le> of_int (100 * 2 ^ k)"
    by (simp only: of_int_le_iff)
  then have "r \<le> of_int (100 * 2 ^ k) * u" unfolding r_def using upos
    by (simp only: mult_le_cancel_right_pos)
  then have r100: "r \<le> 100" by (simp add: u_eq)
  have r0: "0 \<le> r" unfolding r_def using round_ties_even_nonneg [OF q0] upos by simp
  have "(100 :: rat) < 2 powi 1024" by (simp add: power_int_def)
  with r100 r0 have "\<not> 2 powi 1024 \<le> \<bar>r\<bar>" by simp
  then have "to_double x = Fin r" using False
    by (simp add: to_double_def Let_def e_def [symmetric] u_def [symmetric] r_def [symmetric])
  with r0 r100 show ?thesis by blast
qed

lemma double_mul_percent:
  assumes "0 \<le> c" "c \<le> 1"
  shows "\<exists>p. double_mul c 100 = Fin p \<and> 0 \<le> p \<and> p \<le> 100"
  unfolding double_mul_def using assms by (intro to_double_percent) simp_all

lemma percent_half_ulp:
  assumes "\<bar>x\<bar> \<le> 100"
  shows "(2 :: rat) powi (max (binary_exponent x) (- 1022) - 52) / 2 \<le> 1 / 2 ^ 47"
proof -
  have "max (binary_exponent x) (- 1022) - 52 \<le> - 46"
    using binary_exponent_le_6 [OF assms] by simp
  then have "(2 :: rat) powi (max (binary_exponent x) (- 1022) - 52) \<le> 2 powi (- 46)"
    by (intro power_int_increasing) simp_all
  also have "(2 :: rat) powi (- 46) = 1 / 2 ^ 46" by (simp add: power_int_def power_one_over)
  finally show ?thesis by simp
qed

text \<open>The product of a confidence and 100, as a double, is within \<open>2^-47\<close> of the exact one.\<close>

lemma double_mul_percent_near:
  assumes "0 \<le> c" "c \<le> 1" and "double_mul c 100 = Fin p"
  shows "\<bar>p - c * 100\<bar> \<le> 1 / 2 ^ 47"
proof -
  from assms(3) have t: "to_double (c * 100) = Fin p" by (simp add: double_mul_def)
  have "\<bar>c * 100\<bar> \<le> 100" using assms(1,2) by simp
  from percent_half_ulp [OF this] to_double_is_nearest_double [OF t]
  show ?thesis by auto
qed

lemma round_percent_near:
  fixes p x :: rat
  assumes "\<bar>p - x\<bar> \<le> 1 / 2 ^ 47"
  shows "\<bar>of_int (round p) - x\<bar> \<le> 1 / 2 + 1 / 2 ^ 47"
proof -
  have "\<bar>of_int (round p) - p\<bar> \<le> 1 / 2" by (rule of_int_round_abs_le)
  with assms show ?thesis by linarith
qed

lemma toFixed0_small:
  assumes "0 \<le> p" "p \<le> 100"
  shows "toFixed0 tostr (Fin p) = decimal (nat (round p))"
  using assms by (simp add: toFixed0_def round_def)

lemma sample_confidence: "double_mul (confidence sample_lineage) 100 = Fin 87"
  by (simp add: sample_lineage_def double_mul_def to_double_def binary_exponent_def
      round_ties_even_def Let_def power_int_def power_one_over)

lemma tooltip_renderField:
  "tooltip (renderField tostr loc d lbl k v) = map_option (tooltip_lines tostr) (lineage_of d k)"
  by (simp add: renderField_def)

text \<open>
  Claim C8. For an attribute that has a lineage entry, with a confidence between 0 and 1
  as the data model has it, the tooltip shows the source; the first 8 characters of the
  payload id followed by ``...''; the confidence as a percentage: the product \<open>p\<close> of the
  confidence and 100, as the doubles give it, rounded to the nearest whole number
  (\<open>round p\<close>) and followed by \<open>%\<close>; and a file line and a path line only for a file
  name and a path that are present (and not empty). The product \<open>p\<close> lies between 0 and
  100 and within \<open>2^-47\<close> of the exact product of the confidence and 100, so the number
  shown is within \<open>1/2 + 2^-47\<close> of the exact percentage.
\<close>

theorem tooltip_shows_lineage:
  assumes "lineage_of d k = Some l" and "0 \<le> confidence l" and "confidence l \<le> 1"
  shows "\<exists>p. double_mul (confidence l) 100 = Fin p \<and> 0 \<le> p \<and> p \<le> 100 \<and>
           \<bar>p - confidence l * 100\<bar> \<le> 1 / 2 ^ 47 \<and>
           \<bar>of_int (round p) - confidence l * 100\<bar> \<le> 1 / 2 + 1 / 2 ^ 47 \<and>
           tooltip (renderField tostr loc d lbl k v) =
             Some ([(''Source:'', lsource l),
                    (''Payload ID:'', take 8 (payload_id l) @ ''...''),
                    (''Confidence:'', decimal (nat (round p)) @ ''%'')]
                   @ (case file_name l of
                        None \<Rightarrow> []
                      | Some f \<Rightarrow> if f = '''' then [] else [(''File:'', f)])
                   @ (case json_path l of
                        None \<Rightarrow> []
                      | Some f \<Rightarrow> if f = '''' then [] else [(''Path:'', f)]))"
proof -
  from double_mul_percent [OF assms(2,3)] obtain p
    where p: "double_mul (confidence l) 100 = Fin p" "0 \<le> p" "p \<le> 100" by blast
  have "tooltip_lines tostr l =
          [(''Source:'', lsource l),
           (''Payload ID:'', take 8 (payload_id l) @ ''...''),
           (''Confidence:'', decimal (nat (round p)) @ ''%'')]
          @ (case file_name l of
               None \<Rightarrow> []
             | Some f \<Rightarrow> if f = '''' then [] else [(''File:'', f)])
          @ (case json_path l of
               None \<Rightarrow> []
             | Some f \<Rightarrow> if f = '''' then [] else [(''Path:'', f)])"
    using p by (simp add: tooltip_lines_def toFixed0_small truthy_str_def split: option.splits)
  moreover note near = double_mul_percent_near [OF assms(2,3) p(1)]
  moreover note round_percent_near [OF near]
  ultimately show ?thesis using p assms(1) by (simp add: tooltip_renderField)
qed

text \<open>
  Claim C8, the spec's example: the entry with source ``ERP'', payload ``abcdefgh1234'' and
  confidence 0.87 shows ``ERP'', ``abcdefgh...'' and ``87%'', and no file or path line.
\<close>

theorem tooltip_shows_lineage_witness:
  "lineage_of sample_entity ''revenue_usd'' = Some sample_lineage
   \<and> 0 \<le> confidence sample_lineage \<and> confidence sample_lineage \<le> 1
   \<and> double_mul (confidence sample_lineage) 100 = Fin 87
   \<and> \<bar>87 - confidence sample_lineage * 100\<bar> \<le> 1 / 2 ^ 47
   \<and> tooltip (renderField (\<lambda>x. []) (\<lambda>x. []) sample_entity ''Revenue (USD)'' ''revenue_usd''
        (Some (NumValue 1000000))) =
       Some [(''Source:'', ''ERP''), (''Payload ID:'', ''abcdefgh...''), (''Confidence:'', ''87%'')]"
proof -
  have a: "lineage_of sample_entity ''revenue_usd'' = Some sample_lineage"
    by (simp add: lineage_of_def sample_entity_def)
  have b: "0 \<le> confidence sample_lineage" and c: "confidence sample_lineage \<le> 1"
    by (simp_all add: sample_lineage_def)
  from tooltip_shows_lineage [OF a b c, of "\<lambda>x. []" "\<lambda>x. []" "''Revenue (USD)''"
      "Some (NumValue 1000000)"]
  obtain p where p: "double_mul (confidence sample_lineage) 100 = Fin p"
    and near: "\<bar>p - confidence sample_lineage * 100\<bar> \<le> 1 / 2 ^ 47"
    and t: "tooltip (renderField (\<lambda>x. []) (\<lambda>x. []) sample_entity ''Revenue (USD)''
              ''revenue_usd'' (Some (NumValue 1000000))) =
             Some ([(''Source:'', lsource sample_lineage),
                    (''Payload ID:'', take 8 (payload_id sample_lineage) @ ''...''),
                    (''Confidence:'', decimal (nat (round p)) @ ''%'')]
                   @ (case file_name sample_lineage of
                        None \<Rightarrow> []
                      | Some f \<Rightarrow> if f = '''' then [] else [(''File:'', f)])
                   @ (case json_path sample_lineage of
                        None \<Rightarrow> []
                      | Some f \<Rightarrow> if f = '''' then [] else [(''Path:'', f)]))"
    by blast
  from p have p87: "p = 87" by (simp add: sample_confidence)
  have "tooltip (renderField (\<lambda>x. []) (\<lambda>x. []) sample_entity ''Revenue (USD)'' ''revenue_usd''
          (Some (NumValue 1000000))) =
        Some [(''Source:'', ''ERP''), (''Payload ID:'', ''abcdefgh...''), (''Confidence:'', ''87%'')]"
    unfolding t p87 by (simp add: sample_lineage_def digit_char_def)
  moreover from near have "\<bar>87 - confidence sample_lineage * 100\<bar> \<le> 1 / 2 ^ 47"
    by (simp only: p87)
  ultimately show ?thesis using a b c sample_confidence by simp
qed

section \<open>Failed fetches\<close>

lemma fetch_json_failure: "unchecked_failure r \<Longrightarrow> \<exists>e. fetch_json r = Inl e"
  by (auto simp add: unchecked_failure_def fetch_json_def split: response.splits)

lemma fetch_checked_failure: "checked_failure r \<Longrightarrow> \<exists>e. fetch_checked msg r = Inl e"
  by (auto simp add: checked_failure_def fetch_checked_def split: response.splits if_splits)

lemma normalizeItem_non_null: "non_null r \<Longrightarrow> normalizeItem r = Inr (row_item r)"
  by (cases r)
    (simp_all add: non_null_def row_item_def normalizeItem_JObj normalizeItem_JArr
      normalizeItem_JStr normalizeItem_JNum normalizeItem_JBool)

lemma map_e_normalizeItem:
  "list_all non_null rows \<Longrightarrow> map_e normalizeItem rows = Inr (map row_item rows)"
  by (induction rows) (simp_all add: normalizeItem_non_null)

lemma normalizedDict_rows:
  "list_all non_null rows \<Longrightarrow> normalizedDict (JArr rows) = Inr (map row_item rows)"
  by (simp add: normalizedDict_def array_map_e_def map_e_normalizeItem)

text \<open>
  Claim C5, as stated, fails in three places. When the graph request fails, the page
  does not fall back to an empty data set but to its three demo nodes and two demo
  edges. The explorer page does not look at the status of an answer, nor at the shape of
  its body: when the dictionary fetch is answered by a 404 with a JSON body, or by an
  array with a \<open>null\<close> row, the callback throws and the page stays loading; a 404 body
  of the sample fetch becomes the sample; a 404 body of the modules fetch becomes the
  module list, and rendering the sidebar throws.
\<close>

theorem failed_graph_fetch_shows_demo_nodes:
  "nodes (handleSearch_end (handleSearch_begin home_init) NetworkFailure) = mock_nodes
   \<and> length mock_nodes = 3
   \<and> edges (handleSearch_end (handleSearch_begin home_init) NetworkFailure) = mock_edges
   \<and> length mock_edges = 2
   \<and> loadModule_end (loadModule_begin explorer_init) (HttpResponse False (Some not_found))
        NetworkFailure = Inl TypeError
   \<and> loadModule_end (loadModule_begin explorer_init) (HttpResponse True (Some (JArr [JNull])))
        NetworkFailure = Inl TypeError
   \<and> x_loading (loadModule_begin explorer_init)
   \<and> loadModule_end (loadModule_begin explorer_init) NetworkFailure
        (HttpResponse False (Some not_found)) = Inr (explorer_init\<lparr>sample := not_found\<rparr>)
   \<and> modules (loadModules (\<lambda>v. False) explorer_init (HttpResponse False (Some not_found))) =
        not_found
   \<and> render_sidebar (loadModules (\<lambda>v. False) explorer_init (HttpResponse False (Some not_found))) =
        Inl TypeError"
  by (simp add: handleSearch_end_def fetchEntityGraph_def fetch_checked_def mock_nodes_def
      mock_edges_def loadModule_end_def loadModule_begin_def explorer_init_def fetch_json_def
      normalizedDict_def array_map_e_def not_found_def normalizeItem_JNull loadModules_def
      gt_zero_def render_sidebar_def)

text \<open>
  Claim C5, amended. A failed fetch (the request fails or the body is not JSON; for the
  graph and the golden record also a status that is not OK) throws nothing and leaves
  each slice as follows. The graph falls back to the fixed demo data, with a notice; a
  graph answer that lacks its nodes or its edges gives the empty list for them. The
  golden-record panel shows its notice in place of the record. The module list stays
  as it was. A failed dictionary fetch gives the empty dictionary, whatever the sample
  fetch gave. A failed sample fetch gives the sample \<open>null\<close>, beside the resolved rows of
  a dictionary answer that is an array without a \<open>null\<close> row.
\<close>

theorem failed_fetch_outcomes:
  assumes "checked_failure rg" and "checked_failure re"
    and "unchecked_failure rm" and "unchecked_failure rd" and "unchecked_failure rs"
    and "list_all non_null rows"
  shows "handleSearch_end h rg =
           h\<lparr>error := ''Failed to fetch graph data. Is the backend running?'',
             nodes := mock_nodes, edges := mock_edges, loading := False\<rparr>
         \<and> handleSearch_end h (HttpResponse True (Some \<lparr>payload_nodes = None, payload_edges = None\<rparr>)) =
             h\<lparr>nodes := [], edges := [], loading := False\<rparr>
         \<and> fetchData_end ds re =
             ds\<lparr>d_error := ''Could not load entity details.'', d_loading := False\<rparr>
         \<and> details_render tostr loc (fetchData_end ds re) =
             ErrorView ''Could not load entity details.''
         \<and> loadModules az x rm = x
         \<and> loadModule_end x rd sr =
             Inr (x\<lparr>dictionary := [],
                    sample := (case fetch_json sr of Inl e \<Rightarrow> JNull | Inr v \<Rightarrow> v),
                    x_loading := False\<rparr>)
         \<and> loadModule_end x (HttpResponse ok (Some (JArr rows))) rs =
             Inr (x\<lparr>dictionary := map row_item rows, sample := JNull, x_loading := False\<rparr>)
         \<and> map_e normalizeItem rows = Inr (map row_item rows)"
proof -
  from fetch_checked_failure [OF assms(1)] obtain e1
    where e1: "fetch_checked ''Failed to fetch graph data'' rg = Inl e1" by blast
  from fetch_checked_failure [OF assms(2)] obtain e2
    where e2: "fetch_checked ''Failed to fetch entity details'' re = Inl e2" by blast
  from fetch_json_failure [OF assms(3)] obtain e3 where e3: "fetch_json rm = Inl e3" by blast
  from fetch_json_failure [OF assms(4)] obtain e4 where e4: "fetch_json rd = Inl e4" by blast
  from fetch_json_failure [OF assms(5)] obtain e5 where e5: "fetch_json rs = Inl e5" by blast
  have g: "handleSearch_end h rg =
           h\<lparr>error := ''Failed to fetch graph data. Is the backend running?'',
             nodes := mock_nodes, edges := mock_edges, loading := False\<rparr>"
    by (simp add: handleSearch_end_def fetchEntityGraph_def e1)
  have g2: "handleSearch_end h (HttpResponse True (Some \<lparr>payload_nodes = None, payload_edges = None\<rparr>)) =
             h\<lparr>nodes := [], edges := [], loading := False\<rparr>"
    by (simp add: handleSearch_end_def fetchEntityGraph_def fetch_checked_def nodes_of_def
        edges_of_def)
  have d: "fetchData_end ds re =
             ds\<lparr>d_error := ''Could not load entity details.'', d_loading := False\<rparr>"
    by (simp add: fetchData_end_def e2)
  have r: "details_render tostr loc (fetchData_end ds re) =
             ErrorView ''Could not load entity details.''"
    by (simp add: d details_render_def)
  have m: "loadModules az x rm = x" by (simp add: loadModules_def e3)
  have l1: "loadModule_end x rd sr =
             Inr (x\<lparr>dictionary := [],
                    sample := (case fetch_json sr of Inl e \<Rightarrow> JNull | Inr v \<Rightarrow> v),
                    x_loading := False\<rparr>)"
    by (simp add: loadModule_end_def e4 normalizedDict_def array_map_e_def)
  have l2: "loadModule_end x (HttpResponse ok (Some (JArr rows))) rs =
             Inr (x\<lparr>dictionary := map row_item rows, sample := JNull, x_loading := False\<rparr>)"
  proof -
    have "fetch_json (HttpResponse ok (Some (JArr rows))) = Inr (JArr rows)"
      by (simp add: fetch_json_def)
    then show ?thesis
      by (simp add: loadModule_end_def e5 normalizedDict_rows [OF assms(6)])
  qed
  note l3 = map_e_normalizeItem [OF assms(6)]
  from g g2 d r m l1 l2 l3 show ?thesis by simp
qed

text \<open>
  Claim C5, an instance. A session where every fetch fails, each in its own way: the
  graph with a status that is not OK, the golden record and the dictionary with a failed
  request, the modules and the sample with a body that is not JSON; and a sample fetch
  that fails beside a dictionary of two rows, an object and a stray string.
\<close>

theorem failed_fetch_outcomes_witness:
  "checked_failure (HttpResponse False (Some graph_a))
   \<and> checked_failure (NetworkFailure :: EntityData response)
   \<and> unchecked_failure (HttpResponse True None :: jsval response)
   \<and> unchecked_failure (NetworkFailure :: jsval response)
   \<and> list_all non_null [JObj [(''Field Name'', JStr ''X'')], JStr ''junk'']
   \<and> map nid (nodes (handleSearch_end (handleSearch_begin home_init)
        (HttpResponse False (Some graph_a)))) = [''1'', ''2'', ''3'']
   \<and> details_render (\<lambda>x. []) (\<lambda>x. []) (fetchData_end (fetchData_begin details_init) NetworkFailure) =
       ErrorView ''Could not load entity details.''
   \<and> modules (loadModules (\<lambda>v. False) (loadModule_begin explorer_init) (HttpResponse True None)) =
       JArr []
   \<and> loadModule_end (loadModule_begin explorer_init) NetworkFailure (HttpResponse True None) =
       Inr explorer_init
   \<and> loadModule_end (loadModule_begin explorer_init)
        (HttpResponse True (Some (JArr [JObj [(''Field Name'', JStr ''X'')], JStr ''junk''])))
        (HttpResponse True None) =
       Inr (explorer_init\<lparr>dictionary := [default_item\<lparr>fieldName := JStr ''X''\<rparr>, default_item]\<rparr>)"
proof -
  have g: "checked_failure (HttpResponse False (Some graph_a))"
    and e: "checked_failure (NetworkFailure :: EntityData response)"
    and m: "unchecked_failure (HttpResponse True None :: jsval response)"
    and d: "unchecked_failure (NetworkFailure :: jsval response)"
    and n: "list_all non_null [JObj [(''Field Name'', JStr ''X'')], JStr ''junk'']"
    by (simp_all add: checked_failure_def unchecked_failure_def non_null_def)
  note t = failed_fetch_outcomes [OF g e m d m n, where h = "handleSearch_begin home_init"
      and ds = "fetchData_begin details_init" and tostr = "\<lambda>x. []" and loc = "\<lambda>x. []"
      and az = "\<lambda>v. False"
      and x = "loadModule_begin explorer_init" and sr = "HttpResponse True None"
      and ok = True]
  from t have "map nid (nodes (handleSearch_end (handleSearch_begin home_init)
        (HttpResponse False (Some graph_a)))) = [''1'', ''2'', ''3'']"
    by (simp add: mock_nodes_def)
  moreover from t have "details_render (\<lambda>x. []) (\<lambda>x. [])
        (fetchData_end (fetchData_begin details_init) NetworkFailure) =
       ErrorView ''Could not load entity details.''"
    by blast
  moreover from t
  have "modules (loadModules (\<lambda>v. False) (loadModule_begin explorer_init) (HttpResponse True None)) =
       JArr []"
    by (simp add: loadModule_begin_def explorer_init_def)
  moreover from t
  have "loadModule_end (loadModule_begin explorer_init) NetworkFailure (HttpResponse True None) =
       Inr explorer_init"
    by (simp add: loadModule_begin_def explorer_init_def fetch_json_def)
  moreover have "map row_item [JObj [(''Field Name'', JStr ''X'')], JStr ''junk''] =
       [default_item\<lparr>fieldName := JStr ''X''\<rparr>, default_item]"
    by (simp add: row_item_def normalizeItem_JObj normalizeItem_JStr default_item_def)
  with t have "loadModule_end (loadModule_begin explorer_init)
        (HttpResponse True (Some (JArr [JObj [(''Field Name'', JStr ''X'')], JStr ''junk''])))
        (HttpResponse True None) =
       Inr (explorer_init\<lparr>dictionary := [default_item\<lparr>fieldName := JStr ''X''\<rparr>, default_item]\<rparr>)"
    by (simp add: loadModule_begin_def explorer_init_def)
  ultimately show ?thesis using g e m d n by simp
qed

section \<open>Search and replace\<close>

lemma loading_handleSearch_end [simp]: "loading (handleSearch_end h r) = False"
  by (simp add: handleSearch_end_def split: sum.splits)

lemma handleSearch_end_ok:
  "handleSearch_end h (HttpResponse True (Some d)) =
     h\<lparr>nodes := nodes_of d, edges := edges_of d, loading := False\<rparr>"
  by (simp add: handleSearch_end_def fetchEntityGraph_def fetch_checked_def)

text \<open>
  \<open>handleSearch\<close> keeps no record of which request is the current one: of two responses
  handled in turn, the later one stays. What keeps a stale response out is the disabled
  button, by which a second request is never in flight.
\<close>

lemma handleSearch_end_last_wins:
  "nodes (handleSearch_end (handleSearch_end h (HttpResponse True (Some d1)))
     (HttpResponse True (Some d2))) = nodes_of d2"
  by (simp add: handleSearch_end_ok)

lemma one_in_flight_init: "one_in_flight home_sys_init"
  by (simp add: one_in_flight_def home_sys_init_def home_init_def)

lemma home_step_one_in_flight:
  assumes "one_in_flight s" and "home_step s e = Some s'"
  shows "one_in_flight s'"
proof (cases e)
  case (SetEntityId v)
  with assms show ?thesis by (auto simp add: one_in_flight_def)
next
  case ClickAnalyze
  with assms show ?thesis
    by (auto simp add: one_in_flight_def handleSearch_begin_def split: if_splits)
next
  case (GraphResponse i r)
  with assms show ?thesis
    by (auto simp add: one_in_flight_def drop_nth_def split: if_splits)
qed

lemma app_step_one_in_flight:
  assumes "one_in_flight (page a)" and "app_step lib tostr a e = Some a'"
  shows "one_in_flight (page a')"
proof (cases e)
  case (PageEvent pe)
  with assms(2) obtain s where "home_step (page a) pe = Some s" and "page a' = s"
    by (auto split: option.splits)
  with assms(1) show ?thesis by (auto dest: home_step_one_in_flight)
next
  case (ViewEvent ve)
  with assms show ?thesis by auto
qed

lemma app_run_one_in_flight:
  "one_in_flight (page a) \<Longrightarrow> app_run lib tostr a evs = Some a' \<Longrightarrow> one_in_flight (page a')"
proof (induction evs arbitrary: a)
  case Nil
  then show ?case by simp
next
  case (Cons e evs)
  from Cons.prems(2) obtain b where b: "app_step lib tostr a e = Some b"
    and r: "app_run lib tostr b evs = Some a'"
    by (auto split: option.splits)
  from app_step_one_in_flight [OF Cons.prems(1) b] have "one_in_flight (page b)" .
  from Cons.IH [OF this r] show ?case .
qed

lemma reachable_one_in_flight:
  "app_run lib tostr app_init evs = Some a \<Longrightarrow> one_in_flight (page a)"
  by (rule app_run_one_in_flight [of app_init]) (simp_all add: app_init_def one_in_flight_init)

lemma nid_processNodes: "map nid (processNodes tostr ns m) = map nid ns"
  by (simp add: processNodes_def processNode_def)

lemma eid_processEdges: "map eid (processEdges tostr es) = map eid es"
  by (simp add: processEdges_def processEdge_def)

lemmas run_eval = app_init_def home_sys_init_def home_init_def viz_init_def
  handleSearch_begin_def handleSearch_end_ok viz_effect_def drop_nth_def

text \<open>
  Claim C6. In every state the page can reach, at most one graph request is in flight:
  the button is disabled while a search is loading, so the search for B is issued only
  after the response for A has come, and no stale response for A is left to arrive.
  When the response for the pending request brings a graph, the page's nodes and edges
  become exactly that graph's, the view's working copy becomes the visuals derived from
  them, node for node and edge for edge, and no request is pending any more: no
  response can follow until the next click.
\<close>

theorem graph_response_replaces_graph:
  assumes "app_run lib tostr app_init evs = Some a"
    and "app_step lib tostr a (PageEvent (GraphResponse i (HttpResponse True (Some d)))) = Some a'"
  shows "i = 0 \<and> length (pending (page a)) = 1 \<and> pending (page a') = []
         \<and> app_step lib tostr a' (PageEvent (GraphResponse j r)) = None
         \<and> nodes (home (page a')) = nodes_of d \<and> edges (home (page a')) = edges_of d
         \<and> vnodes (view a') = processNodes tostr (nodes_of d) (riskMode (view a))
         \<and> vedges (view a') = processEdges tostr (edges_of d)
         \<and> map nid (vnodes (view a')) = map nid (nodes_of d)
         \<and> map eid (vedges (view a')) = map eid (edges_of d)"
proof -
  from reachable_one_in_flight [OF assms(1)] have inv: "one_in_flight (page a)" .
  from assms(2) have en: "i < length (pending (page a))"
    by (auto split: option.splits if_splits)
  with inv have len: "length (pending (page a)) = 1" and i0: "i = 0"
    by (auto simp add: one_in_flight_def split: if_splits)
  from assms(2) en
  have a': "a' =
      \<lparr>page = \<lparr>home = handleSearch_end (home (page a)) (HttpResponse True (Some d)),
                pending = drop_nth i (pending (page a))\<rparr>,
       view = viz_effect tostr
                (nodes (handleSearch_end (home (page a)) (HttpResponse True (Some d))))
                (edges (handleSearch_end (home (page a)) (HttpResponse True (Some d))))
                (view a)\<rparr>"
    by simp
  from len i0 have "drop_nth i (pending (page a)) = []"
    by (cases "pending (page a)") (simp_all add: drop_nth_def)
  with a' i0 len show ?thesis
    by (simp add: handleSearch_end_ok viz_effect_def nid_processNodes eid_processEdges)
qed

text \<open>
  Claim C6, an instance. With the graph of A loaded and edited, the user searches B. The
  request for B is the only one pending, and its response leaves the one node of B in
  the page and in the view.
\<close>

theorem graph_response_replaces_graph_witness:
  "\<exists>a a'. app_run sample_lib (\<lambda>x. []) app_init (loaded_a @ drawn @ search_b) = Some a
     \<and> map nid (nodes (home (page a))) = [''a1'', ''a2'']
     \<and> pending (page a) = [''B'']
     \<and> app_step sample_lib (\<lambda>x. []) a
          (PageEvent (GraphResponse 0 (HttpResponse True (Some graph_b)))) = Some a'
     \<and> map nid (nodes (home (page a'))) = [''b1'']
     \<and> map nid (vnodes (view a')) = [''b1'']
     \<and> edges (home (page a')) = [] \<and> vedges (view a') = []
     \<and> pending (page a') = []"
proof -
  obtain a where run: "app_run sample_lib (\<lambda>x. []) app_init (loaded_a @ drawn @ search_b) = Some a"
    and na: "map nid (nodes (home (page a))) = [''a1'', ''a2'']"
    and pa: "pending (page a) = [''B'']"
    by (simp add: loaded_a_def drawn_def search_b_def run_eval sample_lib_def nodes_of_def
        graph_a_def named_def)
  from pa obtain a' where step: "app_step sample_lib (\<lambda>x. []) a
          (PageEvent (GraphResponse 0 (HttpResponse True (Some graph_b)))) = Some a'"
    by simp
  note t = graph_response_replaces_graph [OF run step, where j = 0 and r = NetworkFailure]
  from t have "pending (page a') = []" by blast
  moreover from t have "nodes (home (page a')) = nodes_of graph_b" by blast
  moreover from t have "edges (home (page a')) = edges_of graph_b" by blast
  moreover from t have "map nid (vnodes (view a')) = map nid (nodes_of graph_b)" by blast
  moreover from t have "vedges (view a') = processEdges (\<lambda>x. []) (edges_of graph_b)" by blast
  ultimately
  have "map nid (nodes (home (page a'))) = [''b1'']"
    and "map nid (vnodes (view a')) = [''b1'']"
    and "edges (home (page a')) = []" and "vedges (view a') = []"
    and "pending (page a') = []"
    by (simp_all add: nodes_of_def edges_of_def graph_b_def named_def processEdges_def)
  with run na pa step show ?thesis
    by - (rule exI [of _ a], rule exI [of _ a'], (intro conjI; assumption))
qed

section \<open>Edits of the view stay in the view\<close>

lemma response_ignores_working_copy:
  assumes "page a = page b" and "riskMode (view a) = riskMode (view b)"
  shows "app_step lib tostr a (PageEvent (GraphResponse i r)) =
         app_step lib tostr b (PageEvent (GraphResponse i r))"
  using assms by (simp add: viz_effect_def split: option.splits)

text \<open>
  Claim C9. A connection the user draws and a change of the nodes (a drag) or of the
  edges go through the library's functions into the view's working copy and nowhere
  else: the page (its nodes and edges, and the list of its pending requests) is the
  same after each. When a response replaces the page's graph, the next state does not
  depend on the working copy: two states with the same page and the same mode come
  out the same, whatever was drawn or dragged in either.
\<close>

theorem view_edits_stay_local:
  assumes "page a = page b" and "riskMode (view a) = riskMode (view b)"
  shows "map_option page (app_step lib tostr a (ViewEvent (Connect c))) = Some (page a)
       \<and> map_option page (app_step lib tostr a (ViewEvent (NodesChange nc))) = Some (page a)
       \<and> map_option page (app_step lib tostr a (ViewEvent (EdgesChange ec))) = Some (page a)
       \<and> map_option view (app_step lib tostr a (ViewEvent (Connect c))) =
           Some ((view a)\<lparr>vedges := addEdge lib c (vedges (view a))\<rparr>)
       \<and> map_option view (app_step lib tostr a (ViewEvent (NodesChange nc))) =
           Some ((view a)\<lparr>vnodes := applyNodeChanges lib nc (vnodes (view a))\<rparr>)
       \<and> map_option view (app_step lib tostr a (ViewEvent (EdgesChange ec))) =
           Some ((view a)\<lparr>vedges := applyEdgeChanges lib ec (vedges (view a))\<rparr>)
       \<and> app_step lib tostr a (PageEvent (GraphResponse i r)) =
           app_step lib tostr b (PageEvent (GraphResponse i r))"
  using response_ignores_working_copy [OF assms] by simp

text \<open>
  Claim C9, an instance. The sample session with and without the drawn edge and the
  dragged node: the two
  working copies differ, the pages do not, and the response for B brings both to the
  same state.
\<close>

theorem view_edits_stay_local_witness:
  "\<exists>a b. app_run sample_lib (\<lambda>x. []) app_init (loaded_a @ drawn @ search_b) = Some a
     \<and> app_run sample_lib (\<lambda>x. []) app_init (loaded_a @ search_b) = Some b
     \<and> page a = page b \<and> riskMode (view a) = riskMode (view b)
     \<and> length (vedges (view a)) = 2 \<and> length (vedges (view b)) = 1
     \<and> map position (vnodes (view a)) \<noteq> map position (vnodes (view b))
     \<and> app_step sample_lib (\<lambda>x. []) a
          (PageEvent (GraphResponse 0 (HttpResponse True (Some graph_b)))) =
        app_step sample_lib (\<lambda>x. []) b
          (PageEvent (GraphResponse 0 (HttpResponse True (Some graph_b))))
     \<and> app_step sample_lib (\<lambda>x. []) a
          (PageEvent (GraphResponse 0 (HttpResponse True (Some graph_b)))) \<noteq> None"
proof -
  obtain a where ra: "app_run sample_lib (\<lambda>x. []) app_init (loaded_a @ drawn @ search_b) = Some a"
    and ea: "length (vedges (view a)) = 2"
    and pa: "map position (vnodes (view a)) =
               [\<lparr>pos_x = 5, pos_y = 7\<rparr>, \<lparr>pos_x = 0, pos_y = 0\<rparr>]"
    and qa: "pending (page a) = [''B'']"
    by (simp add: loaded_a_def drawn_def search_b_def run_eval sample_lib_def nodes_of_def
        edges_of_def graph_a_def named_def processNodes_def processNode_def processEdges_def)
  obtain b where rb: "app_run sample_lib (\<lambda>x. []) app_init (loaded_a @ search_b) = Some b"
    and eb: "length (vedges (view b)) = 1"
    and pb: "map position (vnodes (view b)) =
               [\<lparr>pos_x = 0, pos_y = 0\<rparr>, \<lparr>pos_x = 0, pos_y = 0\<rparr>]"
    by (simp add: loaded_a_def search_b_def run_eval sample_lib_def nodes_of_def
        edges_of_def graph_a_def named_def processNodes_def processNode_def processEdges_def)
  from ra rb have pg: "page a = page b" and rm: "riskMode (view a) = riskMode (view b)"
    by (auto simp add: loaded_a_def drawn_def search_b_def run_eval sample_lib_def)
  from view_edits_stay_local [OF pg rm, where lib = sample_lib and tostr = "\<lambda>x. []"
      and c = "plain_edge None None" and nc = "(''a1'', \<lparr>pos_x = 1, pos_y = 1\<rparr>)" and ec = "()"
      and i = 0 and r = "HttpResponse True (Some graph_b)"]
  have same: "app_step sample_lib (\<lambda>x. []) a
          (PageEvent (GraphResponse 0 (HttpResponse True (Some graph_b)))) =
        app_step sample_lib (\<lambda>x. []) b
          (PageEvent (GraphResponse 0 (HttpResponse True (Some graph_b))))"
    by blast
  from qa have some: "app_step sample_lib (\<lambda>x. []) a
          (PageEvent (GraphResponse 0 (HttpResponse True (Some graph_b)))) \<noteq> None"
    by simp
  from pa pb have "map position (vnodes (view a)) \<noteq> map position (vnodes (view b))"
    by simp
  with ra rb pg rm ea eb same some show ?thesis
    by - (rule exI [of _ a], rule exI [of _ b], (intro conjI; assumption))
qed

end
